theory Spec2Isabelle
  imports Complex_Main
begin

section \<open>JavaScript strings and numbers\<close>

text \<open>
  A JavaScript string is modelled as a \<^typ>\<open>string\<close>: one \<^typ>\<open>char\<close> per code unit, for
  the code units below 256 (ASCII and Latin-1, which covers the Spanish markers of the
  parser: u-acute is 0xFA, o-acute 0xF3, n-tilde 0xF1).
\<close>

definition isDigit :: "char \<Rightarrow> bool" where
  "isDigit c = (c \<in> set ''0123456789'')"

text \<open>
  The white space of \<open>String.prototype.trim\<close> and of the regular expression class
  \<open>\s\<close>, below 256: tab, line feed, vertical tab, form feed, carriage return, space and
  the no-break space.
\<close>

definition isWhiteSpace :: "char \<Rightarrow> bool" where
  "isWhiteSpace c = (c \<in> set [CHR 0x09, CHR 0x0A, CHR 0x0B, CHR 0x0C, CHR 0x0D, CHR 0x20, CHR 0xA0])"

definition trim :: "string \<Rightarrow> string" where
  "trim s = rev (dropWhile isWhiteSpace (rev (dropWhile isWhiteSpace s)))"

fun startsWith :: "string \<Rightarrow> string \<Rightarrow> bool" where
  "startsWith s [] = True"
| "startsWith [] (p # ps) = False"
| "startsWith (c # cs) (p # ps) = (c = p \<and> startsWith cs ps)"

text \<open>\<open>s.includes(sub)\<close>.\<close>

fun js_includes :: "string \<Rightarrow> string \<Rightarrow> bool" where
  "js_includes [] sub = (sub = [])"
| "js_includes (c # cs) sub = (startsWith (c # cs) sub \<or> js_includes cs sub)"

text \<open>\<open>s.split(sep)\<close> for a separator of one character: never the empty list.\<close>

fun split :: "char \<Rightarrow> string \<Rightarrow> string list" where
  "split sep [] = [[]]"
| "split sep (c # cs) =
     (if c = sep then [] # split sep cs
      else (case split sep cs of [] \<Rightarrow> [[c]] | p # ps \<Rightarrow> (c # p) # ps))"

text \<open>\<open>s.replace(pat, repl)\<close> with a string pattern: the first occurrence only.\<close>

fun replaceFirst :: "string \<Rightarrow> string \<Rightarrow> string \<Rightarrow> string" where
  "replaceFirst [] pat repl = (if pat = [] then repl else [])"
| "replaceFirst (c # cs) pat repl =
     (if startsWith (c # cs) pat then repl @ drop (length pat) (c # cs)
      else c # replaceFirst cs pat repl)"

text \<open>\<open>s.toLowerCase()\<close> on code units below 256: A-Z, and 0xC0-0xDE but the
  multiplication sign 0xD7, move up by 32.\<close>

definition lowerChar :: "char \<Rightarrow> char" where
  "lowerChar c =
     (let n = (of_char c :: nat) in
      if (65 \<le> n \<and> n \<le> 90) \<or> (192 \<le> n \<and> n \<le> 222 \<and> n \<noteq> 215) then char_of (n + 32) else c)"

definition toLowerCase :: "string \<Rightarrow> string" where
  "toLowerCase s = map lowerChar s"

text \<open>\<open>s.padStart(2, '0')\<close>.\<close>

definition padStart2 :: "string \<Rightarrow> string" where
  "padStart2 s = replicate (2 - length s) (CHR ''0'') @ s"

text \<open>\<open>xs.join(sep)\<close> on strings.\<close>

fun join :: "string \<Rightarrow> string list \<Rightarrow> string" where
  "join sep [] = []"
| "join sep [x] = x"
| "join sep (x # y # ys) = x @ sep @ join sep (y # ys)"

text \<open>
  A JavaScript number, as far as the parser produces one: \<open>NaN\<close>, an infinity, or a
  finite value. \<open>Finite r\<close> carries the exact value \<open>r\<close> of the decimal text that was read;
  the runtime rounds it to the nearest double, and the sign of zero is not kept.
\<close>

datatype number = NaN | PosInfinity | NegInfinity | Finite rat

definition digitVal :: "char \<Rightarrow> nat" where
  "digitVal c = of_char c - 48"

text \<open>The value of a run of decimal digits, most significant first.\<close>

definition digitsVal :: "string \<Rightarrow> nat" where
  "digitsVal ds = foldl (\<lambda>acc c. 10 * acc + digitVal c) 0 ds"

text \<open>
  The exponent part of a \<open>StrDecimalLiteral\<close> at the head of the rest: \<open>e\<close> or \<open>E\<close>, an
  optional sign and at least one digit; without a digit there is no exponent part.
\<close>

definition exponentPart :: "string \<Rightarrow> int" where
  "exponentPart s =
     (case s of
        [] \<Rightarrow> 0
      | c # cs \<Rightarrow>
          if c = CHR ''e'' \<or> c = CHR ''E'' then
            (case cs of
               [] \<Rightarrow> 0
             | d # ds \<Rightarrow>
                 if d = CHR ''-'' then
                   (if takeWhile isDigit ds = [] then 0 else - int (digitsVal (takeWhile isDigit ds)))
                 else if d = CHR ''+'' then int (digitsVal (takeWhile isDigit ds))
                 else int (digitsVal (takeWhile isDigit (d # ds))))
          else 0)"

definition scale10 :: "rat \<Rightarrow> int \<Rightarrow> rat" where
  "scale10 r e = (if 0 \<le> e then r * 10 ^ nat e else r / 10 ^ nat (- e))"

text \<open>
  The unsigned part of \<open>parseFloat\<close>: \<open>Infinity\<close>, or digits with an optional fraction and
  exponent, the longest prefix that is a \<open>StrUnsignedDecimalLiteral\<close>; \<open>None\<close> when no
  prefix is one.
\<close>

definition unsignedLiteral :: "string \<Rightarrow> (rat option) option" where
  "unsignedLiteral s =
     (if startsWith s ''Infinity'' then Some None
      else
        (let ip = takeWhile isDigit s; r1 = dropWhile isDigit s in
         (case r1 of
            [] \<Rightarrow> (if ip = [] then None else Some (Some (of_nat (digitsVal ip))))
          | c # r2 \<Rightarrow>
              if c = CHR ''.'' then
                (let fp = takeWhile isDigit r2; r3 = dropWhile isDigit r2 in
                 if ip = [] \<and> fp = [] then None
                 else Some (Some (scale10
                        (of_nat (digitsVal ip) + of_nat (digitsVal fp) / 10 ^ length fp)
                        (exponentPart r3))))
              else if ip = [] then None
              else Some (Some (scale10 (of_nat (digitsVal ip)) (exponentPart (c # r2)))))))"

text \<open>\<open>parseFloat(s)\<close> for a string \<open>s\<close>: leading white space is skipped, then an optional
  sign, then the longest numeric prefix; \<open>NaN\<close> when there is none. It never throws.\<close>

definition parseFloat :: "string \<Rightarrow> number" where
  "parseFloat s =
     (let t = dropWhile isWhiteSpace s in
      (case t of
         [] \<Rightarrow> NaN
       | c # cs \<Rightarrow>
           if c = CHR ''-'' then
             (case unsignedLiteral cs of
                None \<Rightarrow> NaN | Some None \<Rightarrow> NegInfinity | Some (Some r) \<Rightarrow> Finite (- r))
           else
             (case unsignedLiteral (if c = CHR ''+'' then cs else t) of
                None \<Rightarrow> NaN | Some None \<Rightarrow> PosInfinity | Some (Some r) \<Rightarrow> Finite r)))"

section \<open>Document status (lambda/shared/document-status.js)\<close>

text \<open>The status of a document is a JavaScript string; the enumeration names nine of them.\<close>

definition RETRYABLE_STATUSES :: "string list" where
  "RETRYABLE_STATUSES = [''FAILED'', ''PASSWORD_ERROR'', ''RETRY_PENDING'']"

definition canRetry :: "string \<Rightarrow> bool" where
  "canRetry status = (status \<in> set RETRYABLE_STATUSES)"


section \<open>Transaction parser (src/unnamed/part_007, the worker's shared/transaction-parser)\<close>

text \<open>
  The metadata object of \<open>parseTransactions\<close>; a property that is not given is
  \<open>undefined\<close>, here \<open>None\<close>.
\<close>

record metadata =
  md_sourceDocumentId :: "string option"
  md_auth0UserId :: "string option"
  md_userEmail :: "string option"
  md_documentType :: "string option"

record transaction =
  auth0UserId :: "string option"
  userEmail :: "string option"
  transactionId :: string
  date :: "string option"
  merchant :: string
  authNumber :: "string option"
  amount :: number
  amountStr :: string
  txType :: string
  category :: string
  sourceDocumentId :: "string option"
  documentType :: "string option"
  rawLine :: string
  createdAt :: string

text \<open>
  What the parser takes from the runtime: the SHA-256 digest in hexadecimal
  (\<open>crypto.createHash('sha256').update(s).digest('hex')\<close>) and the conversion of a number
  to a string that \<open>Array.prototype.join\<close> applies. Both are functions of their argument.
\<close>

record runtime =
  sha256hex :: "string \<Rightarrow> string"
  numberToString :: "number \<Rightarrow> string"

text \<open>The pattern \<open>\d{2}\/\d{2}\/\d{4}\<close> at the head of a string.\<close>

definition datePatternAt :: "string \<Rightarrow> bool" where
  "datePatternAt s =
     (10 \<le> length s \<and> isDigit (s ! 0) \<and> isDigit (s ! 1) \<and> s ! 2 = CHR ''/'' \<and>
      isDigit (s ! 3) \<and> isDigit (s ! 4) \<and> s ! 5 = CHR ''/'' \<and>
      isDigit (s ! 6) \<and> isDigit (s ! 7) \<and> isDigit (s ! 8) \<and> isDigit (s ! 9))"

text \<open>\<open>line.match(datePattern)\<close>: the leftmost match, \<open>None\<close> for \<open>null\<close>.\<close>

fun matchDate :: "string \<Rightarrow> string option" where
  "matchDate [] = None"
| "matchDate (c # cs) = (if datePatternAt (c # cs) then Some (take 10 (c # cs)) else matchDate cs)"

definition isAmountChar :: "char \<Rightarrow> bool" where
  "isAmountChar c = (isDigit c \<or> c = CHR ''.'' \<or> c = CHR '','')"

text \<open>
  \<open>[...line.matchAll(/\$\s*([\d.,]+)/g)]\<close>, each match by its capture group: a dollar
  sign, any white space, then the longest run of digits, periods and commas (at least
  one); the search goes on after the match.
\<close>

function matchAmounts :: "string \<Rightarrow> string list" where
  "matchAmounts [] = []"
| "matchAmounts (c # cs) =
     (if c = CHR ''$'' then
        (let rest = dropWhile isWhiteSpace cs; tok = takeWhile isAmountChar rest in
         if tok = [] then matchAmounts cs else tok # matchAmounts (dropWhile isAmountChar rest))
      else matchAmounts cs)"
  by pat_completeness auto
termination
proof (relation "measure length")
  fix c :: char and cs rest :: string
  assume "rest = dropWhile isWhiteSpace cs"
  then have "length (dropWhile isAmountChar rest) \<le> length cs"
    by (metis length_dropWhile_le le_trans)
  then show "(dropWhile isAmountChar rest, c # cs) \<in> measure length"
    by simp
qed auto

text \<open>\<open>merchant.match(/^(\d{6})/)\<close>: six digits at the start.\<close>

definition matchAuthNumber :: "string \<Rightarrow> string option" where
  "matchAuthNumber s = (if 6 \<le> length s \<and> list_all isDigit (take 6 s) then Some (take 6 s) else None)"

text \<open>
  \<open>convertToISODate\<close>: the date is split at the slashes; a missing month raises a
  TypeError inside the \<open>try\<close>, and the \<open>catch\<close> returns the input; a missing year is printed
  as \<open>undefined\<close> by the template.
\<close>

definition convertToISODate :: "string \<Rightarrow> string" where
  "convertToISODate dateStr =
     (case split (CHR ''/'') dateStr of
        day # month # rest \<Rightarrow>
          (case rest of [] \<Rightarrow> ''undefined'' | year # _ \<Rightarrow> year) @ ''-'' @ padStart2 month @ ''-'' @ padStart2 day
      | _ \<Rightarrow> dateStr)"

text \<open>
  \<open>parseAmount\<close>: every period is removed, the first comma becomes a period, and
  \<open>parseFloat\<close> reads the result. Nothing in the \<open>try\<close> throws on a string, so the
  \<open>catch\<close> that returns 0 is never entered.
\<close>

definition parseAmount :: "string \<Rightarrow> number" where
  "parseAmount str =
     parseFloat (replaceFirst (filter (\<lambda>c. c \<noteq> CHR ''.'') str) '','' ''.'')"

text \<open>An \<open>undefined\<close> or \<open>null\<close> element is joined as the empty string.\<close>

definition joinElem :: "string option \<Rightarrow> string" where
  "joinElem x = (case x of None \<Rightarrow> [] | Some s \<Rightarrow> s)"

definition generateTransactionHash ::
  "runtime \<Rightarrow> string option \<Rightarrow> string option \<Rightarrow> number \<Rightarrow> string \<Rightarrow> string option \<Rightarrow> string option \<Rightarrow> string" where
  "generateTransactionHash rt uid d amt m auth src =
     sha256hex rt (join ''|'' [joinElem uid, joinElem d, numberToString rt amt, m,
       (case auth of None \<Rightarrow> [] | Some a \<Rightarrow> if a = [] then [] else a), joinElem src])"

definition categories :: "(string \<times> string list) list" where
  "categories =
    [(''RESTAURANTES'', [''restaurante'', ''pizza'', ''burger'', ''comida'', ''cafe'', ''starbucks'',
        ''mc donald'', ''frisby'', ''dominos'', ''juan vald'', ''coffee'']),
     (''SUPERMERCADOS'', [''exito'', ''carulla'', ''mercado'', ''super'', ''homecenter'', ''alkosto'']),
     (''TRANSPORTE'', [''uber'', ''taxi'', ''parking'', ''peaje'', ''gasolina'', ''ecopetrol'', ''eds'',
        ''combustible'']),
     (''SALUD'', [''farmacia'', ''drogueria'', ''clinica'', ''hospital'', ''colmedica'', ''farmatodo'',
        ''cruz verde'']),
     (''TECNOLOGIA'', [''amazon'', ''google'', ''apple'', ''microsoft'', ''netflix'', ''spotify'',
        ''openai'', ''github'', ''cloudflare'', ''aws'']),
     (''ENTRETENIMIENTO'', [''cine'', ''teatro'', ''juego'', ''gimnasio'', ''fitness'', ''deporte'',
        ''sporty'']),
     (''SERVICIOS'', [''telefon'', ''internet'', ''luz'', ''agua'', ''gas'', ''movistar'', ''claro'',
        ''une'', ''starlink'']),
     (''HOGAR'', [''homecenter'', ''ferreteria'', ''mueble'', ''decoracion'']),
     (''EDUCACION'', [''universidad'', ''colegio'', ''curso'', ''libro'']),
     (''VIAJES'', [''hotel'', ''aero'', ''avianca'', ''latam'', ''viaje'']),
     (''OTROS_SERVICIOS'', [''rappi'', ''payu'', ''pago''])]"

definition autoCategory :: "string \<Rightarrow> string" where
  "autoCategory m =
     (case find (\<lambda>entry. list_ex (\<lambda>keyword. js_includes (toLowerCase m) keyword) (snd entry)) categories of
        Some entry \<Rightarrow> fst entry
      | None \<Rightarrow> ''SIN_CATEGORIA'')"

definition isSectionStart :: "string \<Rightarrow> bool" where
  "isSectionStart line =
     (js_includes line ''Nuevos movimientos'' \<or> js_includes line ''Movimientos'' \<or>
      (js_includes line (''N'' @ [CHR 0xFA] @ ''mero de'') \<and>
       js_includes line (''autorizaci'' @ [CHR 0xF3] @ ''n'')))"

definition isSectionEnd :: "string \<Rightarrow> bool" where
  "isSectionEnd line =
     (js_includes line ''En casos de inconsistencias'' \<or> js_includes line ''Resumen de tu cuenta'' \<or>
      js_includes line ''Total a pagar'')"

definition isCredit :: "string \<Rightarrow> bool" where
  "isCredit m =
     (js_includes (toLowerCase m) ''pago'' \<or> js_includes (toLowerCase m) ''abono'' \<or>
      js_includes (toLowerCase m) ''reversion'')"

text \<open>
  The body of the loop for a line inside the section that has a date and an amount
  (lines 62 to 133): the transaction built from the line. \<open>stamp\<close> is what
  \<open>new Date().toISOString()\<close> returns there. \<open>merchantBeforeAuth\<close> is the text before
  the first dollar sign, trimmed, without the first occurrence of the date;
  \<open>merchantText\<close> is that text without the authorization number, the \<open>merchant\<close> that the
  hash, the type and the category are computed from.
\<close>

definition merchantBeforeAuth :: "string \<Rightarrow> string" where
  "merchantBeforeAuth line =
     (let m0 = trim (case split (CHR ''$'') line of [] \<Rightarrow> [] | p # _ \<Rightarrow> p)
      in case matchDate line of None \<Rightarrow> m0 | Some dd \<Rightarrow> trim (replaceFirst m0 dd []))"

definition merchantText :: "string \<Rightarrow> string" where
  "merchantText line =
     (let m1 = merchantBeforeAuth line
      in case matchAuthNumber m1 of None \<Rightarrow> m1 | Some a \<Rightarrow> trim (replaceFirst m1 a []))"

definition buildTransaction :: "runtime \<Rightarrow> string \<Rightarrow> metadata \<Rightarrow> string \<Rightarrow> string list \<Rightarrow> transaction" where
  "buildTransaction rt stamp md line amounts =
     (let isoDate = map_option convertToISODate (matchDate line);
          auth = matchAuthNumber (merchantBeforeAuth line);
          m2 = merchantText line;
          aStr = (case amounts of [] \<Rightarrow> ''0'' | a # _ \<Rightarrow> if trim a = [] then ''0'' else trim a);
          amt = parseAmount aStr;
          h = generateTransactionHash rt (md_auth0UserId md) isoDate amt m2 auth (md_sourceDocumentId md)
      in \<lparr> auth0UserId = md_auth0UserId md,
           userEmail = md_userEmail md,
           transactionId = h,
           date = isoDate,
           merchant = (if m2 = [] then ''DESCONOCIDO'' else m2),
           authNumber = auth,
           amount = amt,
           amountStr = aStr,
           txType = (if isCredit m2 then ''CREDIT'' else ''DEBIT''),
           category = autoCategory m2,
           sourceDocumentId = md_sourceDocumentId md,
           documentType = md_documentType md,
           rawLine = line,
           createdAt = stamp \<rparr>)"

text \<open>
  The loop of \<open>parseTransactions\<close> from line index \<open>i\<close>, with the flag
  \<open>inTransactionSection\<close>. A line with a start marker sets the flag and \<open>continue\<close>s, so
  its end markers are not looked at. \<open>clock i\<close> is the time stamp taken at line \<open>i\<close>.
\<close>

fun parseLines :: "runtime \<Rightarrow> (nat \<Rightarrow> string) \<Rightarrow> metadata \<Rightarrow> nat \<Rightarrow> bool \<Rightarrow> string list \<Rightarrow> transaction list" where
  "parseLines rt clock md i inTransactionSection [] = []"
| "parseLines rt clock md i inTransactionSection (l # ls) =
     (let line = trim l in
      if isSectionStart line then parseLines rt clock md (Suc i) True ls
      else
        (if inTransactionSection \<and> 0 < length line \<and> matchDate line \<noteq> None \<and> 0 < length (matchAmounts line)
         then [buildTransaction rt (clock i) md line (matchAmounts line)] else []) @
        parseLines rt clock md (Suc i) (if isSectionEnd line then False else inTransactionSection) ls)"

definition parseTransactions :: "runtime \<Rightarrow> (nat \<Rightarrow> string) \<Rightarrow> string \<Rightarrow> metadata \<Rightarrow> transaction list" where
  "parseTransactions rt clock text md = parseLines rt clock md 0 False (split (CHR 0x0A) text)"


section \<open>Persistence (lambda/workers/pdf-processor.js, saveTransactions)\<close>

text \<open>
  The transactions table, keyed by \<open>(auth0UserId, transactionId)\<close>. What the store does
  beyond its contents is given per item of the batch: the read throws, the write of an
  item that was sent throws an error other than \<open>ConditionalCheckFailedException\<close>, or
  another invocation wrote the same key between the read and the write, so that the
  condition \<open>attribute_not_exists(transactionId)\<close> fails. What the item itself decides
  is not left to this schedule: it is part of the loop below.
\<close>

type_synonym txTable = "(string \<times> string) \<rightharpoonup> transaction"

datatype dynamoFault = NoFault | GetThrows | PutThrows | Raced transaction

record counts =
  saved :: nat
  duplicates :: nat
  errors :: nat

text \<open>
  What the document client and the table accept, whatever the state of the store. The
  client is built by \<open>DynamoDBDocumentClient.from\<close> without marshalling options (line 29),
  so it throws, before anything is sent, on an attribute that is \<open>undefined\<close> and on a
  number that is \<open>NaN\<close>, an infinity, greater than \<open>Number.MAX_SAFE_INTEGER\<close> or less than
  \<open>Number.MIN_SAFE_INTEGER\<close>; \<open>null\<close> is sent as it is. The number compared is the double
  nearest to the value read, which is at most \<open>2^53 - 1\<close> exactly when the value is
  below \<open>2^53 - 1/2\<close>. The table refuses a key attribute that is the empty string. Both
  errors reach the \<open>catch\<close> of the loop with a name other than
  \<open>ConditionalCheckFailedException\<close>.
\<close>

definition keyAccepted :: "string \<Rightarrow> string \<Rightarrow> bool" where
  "keyAccepted uid tid = (uid \<noteq> [] \<and> tid \<noteq> [])"

definition numberAccepted :: "number \<Rightarrow> bool" where
  "numberAccepted n =
     (case n of Finite r \<Rightarrow> \<bar>r\<bar> < 9007199254740992 - 1 / 2 | _ \<Rightarrow> False)"

text \<open>The attributes of the item written by \<open>Item: transaction\<close> (lines 355 to 361): the
  date and the authorization number are \<open>null\<close> when absent, the attributes copied from
  the metadata are \<open>undefined\<close> when absent.\<close>

definition itemAccepted :: "transaction \<Rightarrow> bool" where
  "itemAccepted t =
     (numberAccepted (amount t) \<and> userEmail t \<noteq> None \<and> sourceDocumentId t \<noteq> None \<and>
      documentType t \<noteq> None)"

text \<open>An item the client and the table accept, for the read and for the write.\<close>

definition clientAccepts :: "transaction \<Rightarrow> bool" where
  "clientAccepts t =
     ((case auth0UserId t of None \<Rightarrow> False | Some uid \<Rightarrow> keyAccepted uid (transactionId t)) \<and>
      itemAccepted t)"

text \<open>
  One pass of the \<open>for\<close> loop, item \<open>i\<close> of the batch first. The read comes first: a key
  whose \<open>auth0UserId\<close> is \<open>undefined\<close> is refused by the client and a key with an empty
  string by the table. An item found is a duplicate and is not marshalled. Otherwise the
  write: the client throws on an item it does not accept before the store is reached;
  an item it accepts meets the store, where the limits of the table on sizes, on the
  range of a number and on capacity are faults of the schedule.
\<close>

fun saveLoop :: "(nat \<Rightarrow> dynamoFault) \<Rightarrow> nat \<Rightarrow> txTable \<Rightarrow> counts \<Rightarrow> transaction list \<Rightarrow> counts \<times> txTable" where
  "saveLoop faults i tbl c [] = (c, tbl)"
| "saveLoop faults i tbl c (t # ts) =
     (case auth0UserId t of
        None \<Rightarrow> saveLoop faults (Suc i) tbl (c\<lparr>errors := errors c + 1\<rparr>) ts
      | Some uid \<Rightarrow>
          if \<not> keyAccepted uid (transactionId t) then
            saveLoop faults (Suc i) tbl (c\<lparr>errors := errors c + 1\<rparr>) ts
          else
            (case faults i of
               GetThrows \<Rightarrow> saveLoop faults (Suc i) tbl (c\<lparr>errors := errors c + 1\<rparr>) ts
             | f \<Rightarrow>
                 (case tbl (uid, transactionId t) of
                    Some existing \<Rightarrow> saveLoop faults (Suc i) tbl (c\<lparr>duplicates := duplicates c + 1\<rparr>) ts
                  | None \<Rightarrow>
                      if \<not> itemAccepted t then
                        saveLoop faults (Suc i) tbl (c\<lparr>errors := errors c + 1\<rparr>) ts
                      else
                        (case f of
                           PutThrows \<Rightarrow> saveLoop faults (Suc i) tbl (c\<lparr>errors := errors c + 1\<rparr>) ts
                         | Raced other \<Rightarrow>
                             saveLoop faults (Suc i) (tbl((uid, transactionId t) \<mapsto> other))
                               (c\<lparr>duplicates := duplicates c + 1\<rparr>) ts
                         | _ \<Rightarrow>
                             saveLoop faults (Suc i) (tbl((uid, transactionId t) \<mapsto> t))
                               (c\<lparr>saved := saved c + 1\<rparr>) ts))))"

definition saveTransactions :: "(nat \<Rightarrow> dynamoFault) \<Rightarrow> txTable \<Rightarrow> transaction list \<Rightarrow> counts \<times> txTable" where
  "saveTransactions faults tbl ts = saveLoop faults 0 tbl \<lparr>saved = 0, duplicates = 0, errors = 0\<rparr> ts"

section \<open>Text extraction (lambda/shared/pdf-text-extractor.js)\<close>

text \<open>
  The temporary files of one call, each named with the value of \<open>Date.now()\<close> when the
  name was made, and the part of the file system that holds them.
\<close>

datatype tmpPath = InputPdf nat | OutputTxt nat | UnlockedPdf nat | PasswordTxt nat

type_synonym fileSystem = "tmpPath \<rightharpoonup> string"

text \<open>How a child process ended: exit status 0, or the rejection of \<open>execAsync\<close> with
  its message (the command line and what the tool printed).\<close>

datatype execResult = Exited0 | ExecError string

text \<open>
  What the outside world does during one call: the object read from S3 (\<open>Inl\<close> is the
  message of the error thrown), the four values of \<open>Date.now()\<close>, and for each tool how
  it ended and what it wrote to its output file, if it wrote one.
\<close>

record extractEnv =
  s3Object :: "string + string"
  nowInput :: nat
  nowOutput :: nat
  nowUnlocked :: nat
  nowPassword :: nat
  qpdfResult :: execResult
  qpdfOutput :: "string option"
  pdftotextResult :: execResult
  pdftotextOutput :: "string option"

definition unlinkSync :: "fileSystem \<Rightarrow> tmpPath \<Rightarrow> string + fileSystem" where
  "unlinkSync fs p = (if fs p = None then Inl ''ENOENT: no such file or directory, unlink'' else Inr (fs(p := None)))"

text \<open>\<open>if (fs.existsSync(p)) fs.unlinkSync(p)\<close>.\<close>

definition unlinkIfExists :: "fileSystem \<Rightarrow> tmpPath \<Rightarrow> fileSystem" where
  "unlinkIfExists fs p = fs(p := None)"

text \<open>A string option in a condition: \<open>null\<close>, \<open>undefined\<close> and the empty string are falsy.\<close>

definition truthy :: "string option \<Rightarrow> bool" where
  "truthy x = (case x of None \<Rightarrow> False | Some s \<Rightarrow> s \<noteq> [])"

text \<open>The \<open>catch\<close> of the pdftotext step (lines 113 to 120).\<close>

definition extractCatch :: "extractEnv \<Rightarrow> fileSystem \<Rightarrow> tmpPath \<Rightarrow> string \<Rightarrow> (string + string) \<times> fileSystem" where
  "extractCatch env fs fileToExtract msg =
     (Inl (''TEXT_EXTRACTION_FAILED: '' @ msg),
      unlinkIfExists (unlinkIfExists fs fileToExtract) (OutputTxt (nowOutput env)))"

text \<open>Step 4 and 5 (lines 87 to 120): pdftotext on \<open>fileToExtract\<close>.\<close>

definition extractStep :: "extractEnv \<Rightarrow> fileSystem \<Rightarrow> tmpPath \<Rightarrow> (string + string) \<times> fileSystem" where
  "extractStep env fs fileToExtract =
     (let outputFile = OutputTxt (nowOutput env);
          fs1 = (case pdftotextOutput env of None \<Rightarrow> fs | Some out \<Rightarrow> fs(outputFile \<mapsto> out))
      in case pdftotextResult env of
           ExecError msg \<Rightarrow> extractCatch env fs1 fileToExtract msg
         | Exited0 \<Rightarrow>
             (case fs1 outputFile of
                None \<Rightarrow>
                  extractCatch env fs1 fileToExtract
                    (''pdftotext no gener'' @ [CHR 0xF3] @ '' archivo de salida'')
              | Some txt \<Rightarrow>
                  (case unlinkSync fs1 fileToExtract of
                     Inl e \<Rightarrow> extractCatch env fs1 fileToExtract e
                   | Inr fs2 \<Rightarrow>
                       (case unlinkSync fs2 outputFile of
                          Inl e \<Rightarrow> extractCatch env fs2 fileToExtract e
                        | Inr fs3 \<Rightarrow> (Inr txt, fs3)))))"

text \<open>The \<open>catch\<close> of the qpdf step (lines 77 to 84): the message thrown is fixed.\<close>

definition unlockCatch :: "extractEnv \<Rightarrow> fileSystem \<Rightarrow> (string + string) \<times> fileSystem" where
  "unlockCatch env fs =
     (Inl ''PDF_UNLOCK_FAILED: No se pudo desbloquear el PDF'',
      unlinkIfExists (unlinkIfExists fs (PasswordTxt (nowPassword env))) (InputPdf (nowInput env)))"

text \<open>
  \<open>extractTextFromPDF\<close>: \<open>Inr\<close> the text returned, \<open>Inl\<close> the message of the error thrown,
  and the file system the call leaves.
\<close>

definition extractTextFromPDF :: "extractEnv \<Rightarrow> fileSystem \<Rightarrow> string option \<Rightarrow> (string + string) \<times> fileSystem" where
  "extractTextFromPDF env fs password =
     (case s3Object env of
        Inl e \<Rightarrow> (Inl e, fs)
      | Inr pdfBuffer \<Rightarrow>
          (let inputFile = InputPdf (nowInput env);
               fs1 = fs(inputFile \<mapsto> pdfBuffer)
           in if truthy password then
                (let unlockedFile = UnlockedPdf (nowUnlocked env);
                     passwordFile = PasswordTxt (nowPassword env);
                     fs2 = fs1(passwordFile \<mapsto> (case password of None \<Rightarrow> [] | Some pw \<Rightarrow> pw));
                     fs3 = (case qpdfOutput env of None \<Rightarrow> fs2 | Some out \<Rightarrow> fs2(unlockedFile \<mapsto> out))
                 in case qpdfResult env of
                      ExecError msg \<Rightarrow> unlockCatch env fs3
                    | Exited0 \<Rightarrow>
                        (case unlinkSync fs3 passwordFile of
                           Inl e \<Rightarrow> unlockCatch env fs3
                         | Inr fs4 \<Rightarrow>
                             (case unlinkSync fs4 inputFile of
                                Inl e \<Rightarrow> unlockCatch env fs4
                              | Inr fs5 \<Rightarrow> extractStep env fs5 unlockedFile)))
              else extractStep env fs1 inputFile))"


section \<open>Document tracker (second part of lambda/shared/pdf-text-extractor.js, the worker's shared/document-tracker)\<close>

text \<open>
  An attribute value of a stored item, and the uploads table keyed by
  \<open>(auth0UserId, documentId)\<close>.
\<close>

datatype attr = AttrS string | AttrN int | AttrB bool

type_synonym item = "string \<rightharpoonup> attr"

type_synonym uploadsTable = "(string \<times> string) \<rightharpoonup> item"

text \<open>An attribute in a condition: a missing one, the empty string, 0 and \<open>false\<close> are falsy.\<close>

definition attrTruthy :: "attr option \<Rightarrow> bool" where
  "attrTruthy a =
     (case a of None \<Rightarrow> False | Some (AttrS s) \<Rightarrow> s \<noteq> [] | Some (AttrN n) \<Rightarrow> n \<noteq> 0 | Some (AttrB b) \<Rightarrow> b)"

text \<open>The \<open>SET\<close> clauses of an update, applied to an item from left to right.\<close>

definition applySet :: "item \<Rightarrow> (string \<times> attr) list \<Rightarrow> item" where
  "applySet it assignments = foldl (\<lambda>m kv. m(fst kv \<mapsto> snd kv)) it assignments"

text \<open>
  The \<open>try\<close> block of \<open>updateDocumentStatus\<close> (lines 162 to 212): \<open>Inl\<close> is the message of
  the error thrown by \<open>dynamo.send\<close>, which \<open>fault\<close> gives when the store refuses the
  update; otherwise the item is created or updated.
\<close>

definition updateBody ::
  "string \<Rightarrow> string option \<Rightarrow> uploadsTable \<Rightarrow> string \<Rightarrow> string \<Rightarrow> string \<Rightarrow> (string \<times> attr) list \<Rightarrow> string + uploadsTable" where
  "updateBody now fault tbl uid did status additionalData =
     (let assignments =
            [(''status'', AttrS status), (''statusComposite'', AttrS (uid @ ''#'' @ status)),
             (''updatedAt'', AttrS now)] @
            (if status = ''PROCESSING'' \<and> \<not> attrTruthy (map_of additionalData ''processingStartedAt'')
             then [(''processingStartedAt'', AttrS now)] else []) @
            (if status = ''COMPLETED'' \<and> \<not> attrTruthy (map_of additionalData ''completedAt'')
             then [(''completedAt'', AttrS now)] else []) @
            additionalData
      in case fault of
           Some msg \<Rightarrow> Inl msg
         | None \<Rightarrow>
             Inr (tbl((uid, did) \<mapsto>
               applySet (case tbl (uid, did) of
                           None \<Rightarrow> [''auth0UserId'' \<mapsto> AttrS uid, ''documentId'' \<mapsto> AttrS did]
                         | Some it \<Rightarrow> it) assignments)))"

text \<open>
  \<open>updateDocumentStatus\<close>: the outcome of the call (\<open>Inr ()\<close> when it returns, \<open>Inl\<close> the
  message of an error it throws) and the table it leaves. The guard returns early on a
  missing identifier; the \<open>catch\<close> logs the error of the \<open>try\<close> block and returns.
\<close>

definition updateDocumentStatus ::
  "string \<Rightarrow> string option \<Rightarrow> uploadsTable \<Rightarrow> string option \<Rightarrow> string option \<Rightarrow> string \<Rightarrow> (string \<times> attr) list
     \<Rightarrow> (string + unit) \<times> uploadsTable" where
  "updateDocumentStatus now fault tbl userId documentId status additionalData =
     (case (userId, documentId) of
        (Some uid, Some did) \<Rightarrow>
          if uid = [] \<or> did = [] then (Inr (), tbl)
          else (case updateBody now fault tbl uid did status additionalData of
                  Inl e \<Rightarrow> (Inr (), tbl)
                | Inr tbl' \<Rightarrow> (Inr (), tbl'))
      | _ \<Rightarrow> (Inr (), tbl))"

text \<open>\<open>await f(...)\<close> inside an async wrapper: the wrapper throws what the call throws.\<close>

definition markDocumentFailed ::
  "string \<Rightarrow> string option \<Rightarrow> uploadsTable \<Rightarrow> string option \<Rightarrow> string option \<Rightarrow> string \<Rightarrow> string
     \<Rightarrow> (string + unit) \<times> uploadsTable" where
  "markDocumentFailed now fault tbl userId documentId errorType errorMessage =
     updateDocumentStatus now fault tbl userId documentId ''FAILED''
       [(''errorType'', AttrS errorType), (''errorMessage'', AttrS errorMessage), (''failedAt'', AttrS now)]"

definition markPasswordError ::
  "string \<Rightarrow> string option \<Rightarrow> uploadsTable \<Rightarrow> string option \<Rightarrow> string option \<Rightarrow> string
     \<Rightarrow> (string + unit) \<times> uploadsTable" where
  "markPasswordError now fault tbl userId documentId errorMessage =
     updateDocumentStatus now fault tbl userId documentId ''PASSWORD_ERROR''
       [(''errorType'', AttrS ''PASSWORD_INCORRECT''), (''errorMessage'', AttrS errorMessage),
        (''failedAt'', AttrS now), (''canRetry'', AttrB True)]"

definition markDocumentCompleted ::
  "string \<Rightarrow> string option \<Rightarrow> uploadsTable \<Rightarrow> string option \<Rightarrow> string option \<Rightarrow> int \<Rightarrow> int
     \<Rightarrow> (string + unit) \<times> uploadsTable" where
  "markDocumentCompleted now fault tbl userId documentId transactionsExtracted processingTimeMs =
     updateDocumentStatus now fault tbl userId documentId ''COMPLETED''
       [(''transactionsExtracted'', AttrN transactionsExtracted), (''processingTimeMs'', AttrN processingTimeMs)]"


section \<open>The worker (lambda/workers/pdf-processor.js, processRecord)\<close>

text \<open>
  The storage notification of a queue message, already decoded (the bucket, the key
  after \<open>decodeURIComponent\<close>, the size), and what the worker reads and writes: the
  uploads table, the transactions table and the temporary files.
\<close>

record s3Event =
  evBucket :: string
  evKey :: string
  evSize :: int

record world =
  uploads :: uploadsTable
  txs :: txTable
  files :: fileSystem

text \<open>
  The outside world of one run: the metadata of the object (\<open>Inl\<close> is the message of the
  error \<open>s3.send\<close> throws), the passwords table and the error its read throws if any, the
  extraction, for each status the error the tracker's update throws if any and the time
  stamp taken for it, the parser's clock and runtime, the faults of the transactions
  table, and the processing time measured at the end.
\<close>

record pipelineEnv =
  headObject :: "string + (string \<rightharpoonup> string)"
  passwordsTable :: "(string \<times> string) \<rightharpoonup> string"
  passwordFault :: "string option"
  extraction :: extractEnv
  trackerFault :: "string \<Rightarrow> string option"
  timeAt :: "string \<Rightarrow> string"
  parseClock :: "nat \<Rightarrow> string"
  envRuntime :: runtime
  saveFaults :: "nat \<Rightarrow> dynamoFault"
  elapsedMs :: int

text \<open>A tracker call on the uploads table of the world; \<open>await\<close> passes on what it throws.\<close>

definition tracked :: "world \<Rightarrow> (string + unit) \<times> uploadsTable \<Rightarrow> (string + unit) \<times> world" where
  "tracked w r = (fst r, w\<lparr>uploads := snd r\<rparr>)"

text \<open>Steps 3 and 4 (lines 266 to 312): save, then mark the document completed.
  \<open>saveTransactions\<close> catches every error of the store, so its \<open>catch\<close> here is not entered.\<close>

definition saveStage :: "pipelineEnv \<Rightarrow> world \<Rightarrow> string option \<Rightarrow> string option \<Rightarrow> transaction list \<Rightarrow> (string + unit) \<times> world" where
  "saveStage env w userId documentId transactions =
     (let w1 = w\<lparr>txs := snd (saveTransactions (saveFaults env) (txs w) transactions)\<rparr>
      in tracked w1 (markDocumentCompleted (timeAt env ''COMPLETED'') (trackerFault env ''COMPLETED'')
           (uploads w1) userId documentId (int (length transactions)) (elapsedMs env)))"

text \<open>Step 2 (lines 216 to 264): mark PARSING, parse, and fail the document when no
  transaction was found.\<close>

definition parseStage ::
  "pipelineEnv \<Rightarrow> world \<Rightarrow> string option \<Rightarrow> string option \<Rightarrow> string option \<Rightarrow> string \<Rightarrow> string \<Rightarrow> (string + unit) \<times> world" where
  "parseStage env w userId documentId email docType txt =
     (case tracked w (updateDocumentStatus (timeAt env ''PARSING'') (trackerFault env ''PARSING'')
             (uploads w) userId documentId ''PARSING'' []) of
        (Inl e, w1) \<Rightarrow> (Inl e, w1)
      | (Inr u, w1) \<Rightarrow>
          (let transactions = parseTransactions (envRuntime env) (parseClock env) txt
                 \<lparr>md_sourceDocumentId = documentId, md_auth0UserId = userId, md_userEmail = email,
                  md_documentType = Some docType\<rparr>
           in if length transactions = 0 then
                (case tracked w1 (markDocumentFailed (timeAt env ''FAILED'') (trackerFault env ''FAILED'')
                        (uploads w1) userId documentId ''NO_TRANSACTIONS_FOUND''
                        ''No se encontraron transacciones en el documento'') of
                   (Inl e, w2) \<Rightarrow>
                     (if e \<noteq> ''No se encontraron transacciones'' then
                        (case tracked w2 (markDocumentFailed (timeAt env ''FAILED'')
                                (trackerFault env ''FAILED'') (uploads w2) userId documentId
                                ''PARSING_FAILED'' e) of
                           (Inl e2, w3) \<Rightarrow> (Inl e2, w3)
                         | (Inr u, w3) \<Rightarrow> (Inl e, w3))
                      else (Inl e, w2))
                 | (Inr u, w2) \<Rightarrow> (Inl ''No se encontraron transacciones'', w2))
              else saveStage env w1 userId documentId transactions))"

text \<open>Step 1 (lines 183 to 207): extract the text; on an error, choose the failure by
  the words of its message, record it and throw the error again.\<close>

definition extractStage ::
  "pipelineEnv \<Rightarrow> world \<Rightarrow> string option \<Rightarrow> string option \<Rightarrow> string option \<Rightarrow> string \<Rightarrow> string option \<Rightarrow> (string + unit) \<times> world" where
  "extractStage env w userId documentId email docType password =
     (case extractTextFromPDF (extraction env) (files w) password of
        (Inl msg, fs') \<Rightarrow>
          (let w1 = w\<lparr>files := fs'\<rparr> in
           if js_includes msg ''password'' \<or> js_includes msg (''contrase'' @ [CHR 0xF1] @ ''a'') then
             (case tracked w1 (markPasswordError (timeAt env ''PASSWORD_ERROR'')
                     (trackerFault env ''PASSWORD_ERROR'') (uploads w1) userId documentId
                     (''Error de contrase'' @ [CHR 0xF1] @ ''a: '' @ msg)) of
                (Inl e, w2) \<Rightarrow> (Inl e, w2)
              | (Inr u, w2) \<Rightarrow> (Inl msg, w2))
           else
             (case tracked w1 (markDocumentFailed (timeAt env ''FAILED'') (trackerFault env ''FAILED'')
                     (uploads w1) userId documentId ''EXTRACTION_FAILED'' msg) of
                (Inl e, w2) \<Rightarrow> (Inl e, w2)
              | (Inr u, w2) \<Rightarrow> (Inl msg, w2)))
      | (Inr txt, fs') \<Rightarrow> parseStage env (w\<lparr>files := fs'\<rparr>) userId documentId email docType txt)"

text \<open>
  \<open>processRecord\<close> for a decoded message: \<open>Inr ()\<close> when it returns, \<open>Inl\<close> the message of
  the error it throws (the queue then delivers the message again), and the world it
  leaves. \<open>None\<close> is a message without a storage notification.
\<close>

definition processRecord :: "pipelineEnv \<Rightarrow> world \<Rightarrow> s3Event option \<Rightarrow> (string + unit) \<times> world" where
  "processRecord env w ev =
     (case ev of
        None \<Rightarrow> (Inr (), w)
      | Some e \<Rightarrow>
          if \<not> startsWith (evKey e) ''pdfs/'' then (Inr (), w)
          else
            (case headObject env of
               Inl err \<Rightarrow> (Inl err, w)
             | Inr md \<Rightarrow>
                 (let userId = md ''auth0-user-id'';
                      email = md ''user-email'';
                      documentId = md ''document-id'';
                      docType = (case md ''document-type'' of None \<Rightarrow> ''default''
                                 | Some t \<Rightarrow> if t = [] then ''default'' else t);
                      hasPassword = (md ''has-password'' = Some ''true'')
                  in if \<not> truthy userId then (Inl ''auth0UserId es requerido en metadata'', w)
                     else if \<not> truthy documentId then (Inl ''documentId es requerido en metadata'', w)
                     else
                       (case tracked w (updateDocumentStatus (timeAt env ''PROCESSING'')
                               (trackerFault env ''PROCESSING'') (uploads w) userId documentId ''PROCESSING''
                               [(''fileSize'', AttrN (evSize e)),
                                (''processingStartedAt'', AttrS (timeAt env ''PROCESSING''))]) of
                          (Inl err, w1) \<Rightarrow> (Inl err, w1)
                        | (Inr u, w1) \<Rightarrow>
                            (let password =
                                   (if hasPassword \<and> passwordFault env = None
                                    then passwordsTable env (joinElem userId, docType) else None);
                                 step = (if hasPassword \<and> truthy password then ''DECRYPTING''
                                         else ''EXTRACTING_TEXT'')
                             in case tracked w1 (updateDocumentStatus (timeAt env step)
                                      (trackerFault env step) (uploads w1) userId documentId step []) of
                                  (Inl err, w2) \<Rightarrow> (Inl err, w2)
                                | (Inr u, w2) \<Rightarrow>
                                    extractStage env w2 userId documentId email docType password)))))"


section \<open>Table parser (lambda/shared/parser.js)\<close>

text \<open>
  The parser of extracted tables has an amount parser and a sign rule of its own; the
  worker does not call them. The currency symbols below 256 are the dollar, the pound
  (0xA3) and the yen (0xA5).
\<close>

definition isCurrencySymbol :: "char \<Rightarrow> bool" where
  "isCurrencySymbol c = (c \<in> set [CHR ''$'', CHR 0xA3, CHR 0xA5])"

text \<open>The test \<open>/\d+,\d{2}$/\<close>: the string ends with a digit, a comma and two digits.\<close>

definition hasCommaDecimal :: "string \<Rightarrow> bool" where
  "hasCommaDecimal s =
     (case rev s of
        d2 # d1 # c # d0 # _ \<Rightarrow> isDigit d2 \<and> isDigit d1 \<and> c = CHR '','' \<and> isDigit d0
      | _ \<Rightarrow> False)"

definition parser_parseAmount :: "string \<Rightarrow> number" where
  "parser_parseAmount str =
     (if str = [] then Finite 0
      else
        (let cleaned = filter (\<lambda>c. \<not> isWhiteSpace c) (filter (\<lambda>c. \<not> isCurrencySymbol c) (trim str));
             cleaned2 = (if hasCommaDecimal cleaned
                         then replaceFirst (filter (\<lambda>c. c \<noteq> CHR ''.'') cleaned) '','' ''.''
                         else filter (\<lambda>c. c \<noteq> CHR '','') cleaned)
         in case parseFloat cleaned2 of NaN \<Rightarrow> Finite 0 | n \<Rightarrow> n))"

definition creditKeywords :: "string list" where
  "creditKeywords = [''pago'', ''payment'', ''abono'', ''credit'', ''reverso'']"

text \<open>\<open>determineSign\<close>: a negative amount is kept, a description with a credit keyword
  keeps the amount, anything else is made negative.\<close>

definition determineSign :: "number \<Rightarrow> string \<Rightarrow> number" where
  "determineSign amt description =
     (if (case amt of Finite r \<Rightarrow> r < 0 | NegInfinity \<Rightarrow> True | _ \<Rightarrow> False) then amt
      else if list_ex (\<lambda>kw. js_includes (toLowerCase description) kw) creditKeywords then amt
      else (case amt of Finite r \<Rightarrow> Finite (- \<bar>r\<bar>) | PosInfinity \<Rightarrow> NegInfinity | n \<Rightarrow> n))"

section \<open>Example inputs\<close>

text \<open>
  The extracted text of the end-to-end scenario: the header, one line and the end
  marker, separated by line feeds. \<open>scenarioText\<close> has the line as the scenario gives
  it, \<open>datedText\<close> has the same line after a date.
\<close>

definition headerLine :: string where
  "headerLine = ''Movimientos''"

definition scenarioLine :: string where
  "scenarioLine = ''123456SUPERMERCADO XYZ$50.000,00''"

definition datedLine :: string where
  "datedLine = ''15/01/2025 123456SUPERMERCADO XYZ$50.000,00''"

definition endLine :: string where
  "endLine = ''Total a pagar''"

definition scenarioText :: string where
  "scenarioText = headerLine @ [CHR 0x0A] @ scenarioLine @ [CHR 0x0A] @ endLine"

definition datedText :: string where
  "datedText = headerLine @ [CHR 0x0A] @ datedLine @ [CHR 0x0A] @ endLine"

text \<open>A batch of two parsed transactions of one owner, which differ in their identity.\<close>

definition exampleTx :: "string \<Rightarrow> transaction" where
  "exampleTx tid =
     \<lparr> auth0UserId = Some ''auth0|123'', userEmail = Some ''ana@example.com'', transactionId = tid,
       date = Some ''2025-01-15'', merchant = ''SUPERMERCADO XYZ'', authNumber = Some ''123456'',
       amount = Finite 50000, amountStr = ''50.000,00'', txType = ''DEBIT'',
       category = ''SUPERMERCADOS'', sourceDocumentId = Some ''doc-1'',
       documentType = Some ''default'', rawLine = datedLine,
       createdAt = ''2025-10-27T22:00:15.000Z'' \<rparr>"

definition exampleBatch :: "transaction list" where
  "exampleBatch = [exampleTx ''a1'', exampleTx ''b2'']"




text \<open>
  A decryption that ends with warnings: qpdf writes the decrypted file and exits with
  status 3, which \<open>execAsync\<close> rejects as it does every status other than 0.
\<close>

definition qpdfWarningEnv :: extractEnv where
  "qpdfWarningEnv =
     \<lparr> s3Object = Inr ''%PDF-1.7'',
       nowInput = 1730000000000, nowOutput = 1730000000000,
       nowUnlocked = 1730000000001, nowPassword = 1730000000001,
       qpdfResult = ExecError ''Command failed: qpdf: operation succeeded with warnings; resulting file may have some problems'',
       qpdfOutput = Some ''%PDF-1.7 decrypted'',
       pdftotextResult = Exited0,
       pdftotextOutput = Some ''Movimientos'' \<rparr>"

text \<open>
  A run on a protected document whose stored password is wrong: qpdf writes nothing and
  fails, and its diagnostic says so. The tracker's updates all succeed.
\<close>

definition wrongPasswordEnv :: pipelineEnv where
  "wrongPasswordEnv =
     \<lparr> headObject = Inr [''auth0-user-id'' \<mapsto> ''auth0|123'', ''document-id'' \<mapsto> ''doc-1'',
                          ''has-password'' \<mapsto> ''true''],
       passwordsTable = [(''auth0|123'', ''default'') \<mapsto> ''not-the-password''],
       passwordFault = None,
       extraction =
         \<lparr> s3Object = Inr ''%PDF-1.7'',
           nowInput = 1730000000000, nowOutput = 1730000000000,
           nowUnlocked = 1730000000001, nowPassword = 1730000000001,
           qpdfResult = ExecError ''Command failed: qpdf: invalid password'',
           qpdfOutput = None,
           pdftotextResult = Exited0,
           pdftotextOutput = None \<rparr>,
       trackerFault = (\<lambda>status. None),
       timeAt = (\<lambda>status. ''2025-10-27T22:00:15.000Z''),
       parseClock = (\<lambda>i. ''2025-10-27T22:00:15.000Z''),
       envRuntime = \<lparr> sha256hex = (\<lambda>s. s), numberToString = (\<lambda>n. ''0'') \<rparr>,
       saveFaults = (\<lambda>n. NoFault),
       elapsedMs = 3500 \<rparr>"

definition emptyWorld :: world where
  "emptyWorld = \<lparr> uploads = Map.empty, txs = Map.empty, files = Map.empty \<rparr>"

definition pdfEvent :: s3Event where
  "pdfEvent = \<lparr> evBucket = ''uploads'', evKey = ''pdfs/auth0_123/doc-1-extracto.pdf'', evSize = 1024 \<rparr>"

section \<open>Properties\<close>

subsection \<open>Retryable statuses\<close>

text \<open>
  C8, as stated: \<open>canRetry(status)\<close> is true if and only if the status is \<open>FAILED\<close> or
  \<open>PASSWORD_ERROR\<close>. The list of retryable statuses has a third member,
  \<open>RETRY_PENDING\<close>, so the statement fails there.
\<close>

theorem canRetry_two_statuses_counterexample:
  "\<not> (\<forall>status. canRetry status \<longleftrightarrow> (status = ''FAILED'' \<or> status = ''PASSWORD_ERROR''))"
proof
  assume "\<forall>status. canRetry status \<longleftrightarrow> (status = ''FAILED'' \<or> status = ''PASSWORD_ERROR'')"
  then have "canRetry ''RETRY_PENDING'' \<longleftrightarrow> (''RETRY_PENDING'' = ''FAILED'' \<or> ''RETRY_PENDING'' = ''PASSWORD_ERROR'')"
    by (rule spec)
  then show False
    by (simp add: canRetry_def RETRYABLE_STATUSES_def)
qed

text \<open>
  C8, amended: \<open>canRetry(status)\<close> is true if and only if the status is one of \<open>FAILED\<close>,
  \<open>PASSWORD_ERROR\<close> and \<open>RETRY_PENDING\<close>; it is false for \<open>COMPLETED\<close> and for every other
  status.
\<close>

theorem canRetry_iff_retryable:
  "(canRetry status \<longleftrightarrow> (status = ''FAILED'' \<or> status = ''PASSWORD_ERROR'' \<or> status = ''RETRY_PENDING''))
   \<and> canRetry ''COMPLETED'' = False"
  by (auto simp: canRetry_def RETRYABLE_STATUSES_def)

subsection \<open>Evaluating the parser on the scenario\<close>

lemmas parseFloat_eval =
  parseFloat_def unsignedLiteral_def isDigit_def isWhiteSpace_def digitsVal_def digitVal_def
  scale10_def exponentPart_def Let_def

lemma split_scenarioText: "split (CHR 0x0A) scenarioText = [headerLine, scenarioLine, endLine]"
  unfolding scenarioText_def headerLine_def scenarioLine_def endLine_def by simp

lemma split_datedText: "split (CHR 0x0A) datedText = [headerLine, datedLine, endLine]"
  unfolding datedText_def headerLine_def datedLine_def endLine_def by simp

lemma trim_lines:
  "trim headerLine = headerLine" "trim scenarioLine = scenarioLine" "trim datedLine = datedLine"
  "trim endLine = endLine"
  unfolding headerLine_def scenarioLine_def datedLine_def endLine_def
  by (simp_all add: trim_def isWhiteSpace_def)

lemma markers_of_lines:
  "isSectionStart headerLine" "\<not> isSectionStart scenarioLine" "\<not> isSectionStart datedLine"
  "\<not> isSectionStart endLine" "\<not> isSectionEnd scenarioLine" "\<not> isSectionEnd datedLine"
  "isSectionEnd endLine"
  unfolding headerLine_def scenarioLine_def datedLine_def endLine_def
  by (simp_all add: isSectionStart_def isSectionEnd_def)

lemma matchDate_lines:
  "matchDate scenarioLine = None" "matchDate datedLine = Some ''15/01/2025''" "matchDate endLine = None"
  unfolding scenarioLine_def datedLine_def endLine_def
  by (simp_all add: datePatternAt_def isDigit_def)

lemma matchAmounts_dated: "matchAmounts datedLine = [''50.000,00'']"
  unfolding datedLine_def by (simp add: isWhiteSpace_def isAmountChar_def isDigit_def)

lemma lines_nonempty: "scenarioLine \<noteq> []" "datedLine \<noteq> []" "endLine \<noteq> []"
  unfolding scenarioLine_def datedLine_def endLine_def by simp_all

lemma merchantBeforeAuth_dated: "merchantBeforeAuth datedLine = ''123456SUPERMERCADO XYZ''"
  unfolding datedLine_def
  by (simp add: merchantBeforeAuth_def trim_def isWhiteSpace_def datePatternAt_def isDigit_def)

lemma matchAuthNumber_dated: "matchAuthNumber ''123456SUPERMERCADO XYZ'' = Some ''123456''"
  by (simp add: matchAuthNumber_def isDigit_def)

lemma merchantText_dated: "merchantText datedLine = ''SUPERMERCADO XYZ''"
  by (simp add: merchantText_def merchantBeforeAuth_dated matchAuthNumber_dated trim_def isWhiteSpace_def)

lemma parseAmount_50000: "parseAmount ''50.000,00'' = Finite 50000"
  by (simp add: parseAmount_def parseFloat_eval)

lemma toLowerCase_merchant: "toLowerCase ''SUPERMERCADO XYZ'' = ''supermercado xyz''"
  by code_simp

lemma isCredit_merchant: "\<not> isCredit ''SUPERMERCADO XYZ''"
  by (simp add: isCredit_def toLowerCase_merchant)

lemma autoCategory_merchant: "autoCategory ''SUPERMERCADO XYZ'' = ''SUPERMERCADOS''"
  by (simp add: autoCategory_def toLowerCase_merchant categories_def)

lemma parseTransactions_scenarioText: "parseTransactions rt clock scenarioText md = []"
  by (simp add: parseTransactions_def split_scenarioText trim_lines markers_of_lines matchDate_lines)

lemma parseTransactions_datedText:
  "parseTransactions rt clock datedText md = [buildTransaction rt (clock 1) md datedLine [''50.000,00'']]"
  by (simp add: parseTransactions_def split_datedText trim_lines markers_of_lines matchDate_lines
      matchAmounts_dated lines_nonempty)

lemma buildTransaction_dated:
  "buildTransaction rt stamp md datedLine [''50.000,00''] =
     \<lparr> auth0UserId = md_auth0UserId md,
       userEmail = md_userEmail md,
       transactionId = generateTransactionHash rt (md_auth0UserId md) (Some ''2025-01-15'') (Finite 50000)
         ''SUPERMERCADO XYZ'' (Some ''123456'') (md_sourceDocumentId md),
       date = Some ''2025-01-15'',
       merchant = ''SUPERMERCADO XYZ'',
       authNumber = Some ''123456'',
       amount = Finite 50000,
       amountStr = ''50.000,00'',
       txType = ''DEBIT'',
       category = ''SUPERMERCADOS'',
       sourceDocumentId = md_sourceDocumentId md,
       documentType = md_documentType md,
       rawLine = datedLine,
       createdAt = stamp \<rparr>"
proof -
  have iso: "convertToISODate ''15/01/2025'' = ''2025-01-15''"
    by (simp add: convertToISODate_def padStart2_def)
  have tr: "trim ''50.000,00'' = ''50.000,00''"
    by (simp add: trim_def isWhiteSpace_def)
  show ?thesis
    unfolding buildTransaction_def Let_def matchDate_lines merchantBeforeAuth_dated
      matchAuthNumber_dated merchantText_dated
    by (simp add: iso tr parseAmount_50000 isCredit_merchant autoCategory_merchant)
qed

subsection \<open>Amount normalization\<close>

lemma isDigit_not_other:
  "isDigit c \<Longrightarrow> \<not> isWhiteSpace c \<and> c \<noteq> CHR ''.'' \<and> c \<noteq> CHR '','' \<and> c \<noteq> CHR ''-'' \<and> c \<noteq> CHR ''+'' \<and> c \<noteq> CHR ''I''"
  by (auto simp: isDigit_def isWhiteSpace_def)

lemma filter_periods_digits: "list_all isDigit ds \<Longrightarrow> filter (\<lambda>c. c \<noteq> CHR ''.'') ds = ds"
  by (induction ds) (auto dest: isDigit_not_other)

lemma filter_periods_join:
  "list_all (list_all isDigit) groups \<Longrightarrow> filter (\<lambda>c. c \<noteq> CHR ''.'') (join ''.'' groups) = concat groups"
  by (induction "''.''" groups rule: join.induct) (simp_all add: filter_periods_digits)

lemma replaceFirst_comma_digits:
  "list_all isDigit ds \<Longrightarrow> replaceFirst (ds @ '','' @ rest) '','' ''.'' = ds @ ''.'' @ rest"
  by (induction ds) (auto dest: isDigit_not_other)

lemma replaceFirst_no_comma: "list_all isDigit ds \<Longrightarrow> replaceFirst ds '','' ''.'' = ds"
  by (induction ds) (auto dest: isDigit_not_other)

lemma takeWhile_digits: "list_all isDigit ds \<Longrightarrow> takeWhile isDigit (ds @ CHR ''.'' # rest) = ds"
  by (induction ds) (auto simp: isDigit_def)

lemma dropWhile_digits: "list_all isDigit ds \<Longrightarrow> dropWhile isDigit (ds @ CHR ''.'' # rest) = CHR ''.'' # rest"
  by (induction ds) (auto simp: isDigit_def)

lemma takeWhile_all_digits: "list_all isDigit ds \<Longrightarrow> takeWhile isDigit ds = ds \<and> dropWhile isDigit ds = []"
  by (induction ds) auto

text \<open>\<open>parseFloat\<close> on digits, a period and digits, and on digits alone.\<close>

lemma parseFloat_decimal:
  assumes "list_all isDigit ds" and "ds \<noteq> []" and "list_all isDigit fp"
  shows "parseFloat (ds @ ''.'' @ fp) = Finite (of_nat (digitsVal ds) + of_nat (digitsVal fp) / 10 ^ length fp)"
proof -
  from assms(1,2) obtain d ds' where ds: "ds = d # ds'" and d: "isDigit d"
    by (cases ds) auto
  have ws: "dropWhile isWhiteSpace (ds @ ''.'' @ fp) = ds @ ''.'' @ fp"
    using ds d by (simp add: isDigit_not_other)
  have inf: "\<not> startsWith (ds @ ''.'' @ fp) ''Infinity''"
    using ds d by (auto dest: isDigit_not_other)
  have lit: "unsignedLiteral (ds @ ''.'' @ fp) =
      Some (Some (of_nat (digitsVal ds) + of_nat (digitsVal fp) / 10 ^ length fp))"
    using assms inf
    by (simp add: unsignedLiteral_def Let_def takeWhile_digits dropWhile_digits takeWhile_all_digits
        exponentPart_def scale10_def)
  show ?thesis
    unfolding parseFloat_def Let_def ws
    using lit d by (simp add: ds isDigit_not_other)
qed

lemma parseFloat_integer:
  assumes "list_all isDigit ds" and "ds \<noteq> []"
  shows "parseFloat ds = Finite (of_nat (digitsVal ds))"
proof -
  from assms obtain d ds' where ds: "ds = d # ds'" and d: "isDigit d"
    by (cases ds) auto
  have ws: "dropWhile isWhiteSpace ds = ds"
    using ds d by (simp add: isDigit_not_other)
  have inf: "\<not> startsWith ds ''Infinity''"
    using ds d by (auto dest: isDigit_not_other)
  have lit: "unsignedLiteral ds = Some (Some (of_nat (digitsVal ds)))"
    using assms inf by (simp add: unsignedLiteral_def Let_def takeWhile_all_digits)
  show ?thesis
    unfolding parseFloat_def Let_def ws
    using lit d by (simp add: ds isDigit_not_other)
qed

lemma concat_groups_digits:
  "groups \<noteq> [] \<Longrightarrow> list_all (\<lambda>g. g \<noteq> [] \<and> list_all isDigit g) groups \<Longrightarrow>
   list_all isDigit (concat groups) \<and> concat groups \<noteq> [] \<and> list_all (list_all isDigit) groups"
  by (cases groups) (auto simp: list_all_iff)

text \<open>
  C1, as stated: \<open>parseAmount\<close> maps \<open>1,234.56\<close> to 1234.56 and a malformed string to 0.
  It reads \<open>1,234.56\<close> as 1.23456, and it returns \<open>NaN\<close> for a string without a numeric
  prefix, such as \<open>abc\<close> or the amount \<open>.\<close> of a statement line.
\<close>

theorem parseAmount_other_style_counterexample:
  "parseAmount ''1,234.56'' = Finite (123456 / 100000) \<and>
   parseAmount ''1,234.56'' \<noteq> Finite (123456 / 100) \<and>
   parseAmount ''abc'' = NaN \<and> parseAmount ''abc'' \<noteq> Finite 0 \<and>
   matchAmounts ''$.'' = [''.''] \<and> parseAmount ''.'' = NaN"
proof -
  have "matchAmounts ''$.'' = [''.'']"
    by (simp add: isWhiteSpace_def isAmountChar_def isDigit_def)
  moreover have "parseAmount ''1,234.56'' = Finite (123456 / 100000)"
    by (simp add: parseAmount_def parseFloat_eval)
  moreover have "parseAmount ''abc'' = NaN"
    by (simp add: parseAmount_def parseFloat_eval)
  moreover have "parseAmount ''.'' = NaN"
    by (simp add: parseAmount_def parseFloat_eval)
  ultimately show ?thesis
    by simp
qed

text \<open>
  C1, amended: \<open>parseAmount\<close> reads an amount written with periods between the groups of
  digits and a comma before the decimals: the periods are removed and the comma is the
  decimal point, with or without decimals, so that \<open>123.456,78\<close> is 123456.78. The other
  style is read by the same rule, \<open>1,234.56\<close> as 1.23456. It returns a number for every
  string.
\<close>

theorem parseAmount_period_groups_comma_decimals:
  assumes "groups \<noteq> []" and "list_all (\<lambda>g. g \<noteq> [] \<and> list_all isDigit g) groups"
    and "list_all isDigit decimals"
  shows "parseAmount (join ''.'' groups @ '','' @ decimals) =
      Finite (of_nat (digitsVal (concat groups)) + of_nat (digitsVal decimals) / 10 ^ length decimals) \<and>
    parseAmount (join ''.'' groups) = Finite (of_nat (digitsVal (concat groups))) \<and>
    parseAmount ''1,234.56'' = Finite (123456 / 100000)"
proof -
  from concat_groups_digits [OF assms(1,2)]
  have c: "list_all isDigit (concat groups)" and n: "concat groups \<noteq> []"
    and g: "list_all (list_all isDigit) groups"
    by simp_all
  have "filter (\<lambda>c. c \<noteq> CHR ''.'') (join ''.'' groups @ '','' @ decimals) = concat groups @ '','' @ decimals"
    using g assms(3) by (simp add: filter_periods_join filter_periods_digits)
  then have "parseAmount (join ''.'' groups @ '','' @ decimals) = parseFloat (concat groups @ ''.'' @ decimals)"
    unfolding parseAmount_def using replaceFirst_comma_digits [OF c, of decimals] by simp
  moreover have "parseAmount (join ''.'' groups) = parseFloat (concat groups)"
    unfolding parseAmount_def using g c by (simp add: filter_periods_join replaceFirst_no_comma)
  moreover have "parseAmount ''1,234.56'' = Finite (123456 / 100000)"
    by (simp add: parseAmount_def parseFloat_eval)
  ultimately show ?thesis
    using parseFloat_decimal [OF c n assms(3)] parseFloat_integer [OF c n] by simp
qed

theorem parseAmount_period_groups_comma_decimals_witness:
  "[''123'', ''456''] \<noteq> [] \<and> list_all (\<lambda>g. g \<noteq> [] \<and> list_all isDigit g) [''123'', ''456''] \<and>
   list_all isDigit ''78'' \<and>
   parseAmount ''123.456,78'' = Finite (12345678 / 100) \<and> parseAmount ''123.456'' = Finite 123456 \<and>
   parseAmount ''1,234.56'' = Finite (123456 / 100000)"
proof -
  have h: "list_all (\<lambda>g. g \<noteq> [] \<and> list_all isDigit g) [''123'', ''456'']" "list_all isDigit ''78''"
    by (simp_all add: isDigit_def)
  have v: "digitsVal (concat [''123'', ''456'']) = 123456" "digitsVal ''78'' = 78"
    by (simp_all add: digitsVal_def digitVal_def)
  have "[''123'', ''456''] \<noteq> ([] :: string list)"
    by simp
  from parseAmount_period_groups_comma_decimals [OF this h] h show ?thesis
    unfolding v by simp
qed

text \<open>
  The amount parser of the table parser, which the worker does not call, tells the two
  styles apart and returns 0 where \<open>parseFloat\<close> gives \<open>NaN\<close>.
\<close>

lemma parser_parseAmount_both_styles:
  "parser_parseAmount ''123.456,78'' = Finite (12345678 / 100)"
  "parser_parseAmount ''1,234.56'' = Finite (123456 / 100)"
  "parser_parseAmount ''abc'' = Finite 0"
  by (simp_all add: parser_parseAmount_def hasCommaDecimal_def isCurrencySymbol_def trim_def
      parseFloat_eval)

lemma parser_parseAmount_never_NaN: "parser_parseAmount s \<noteq> NaN"
  by (simp add: parser_parseAmount_def Let_def split: number.splits)

subsection \<open>The end-to-end scenario\<close>

text \<open>
  C5, as stated: the text with the line \<open>123456SUPERMERCADO XYZ$50.000,00\<close> between the
  header and the end marker gives exactly one transaction. The line has no date of the
  form DD/MM/YYYY, and the scanner skips a line without one: the result is empty.
\<close>

theorem scenario_without_date_counterexample:
  "\<forall>rt clock md. parseTransactions rt clock scenarioText md = []"
  by (simp add: parseTransactions_scenarioText)

text \<open>
  C5, amended: for the text with the header \<open>Movimientos\<close>, then the line
  \<open>15/01/2025 123456SUPERMERCADO XYZ$50.000,00\<close> (the scenario's line after a date, which
  the scanner requires), then the end marker \<open>Total a pagar\<close>, \<open>parseTransactions\<close> returns
  exactly one transaction, with amount 50000, type \<open>DEBIT\<close>, merchant \<open>SUPERMERCADO XYZ\<close>
  and category \<open>SUPERMERCADOS\<close>.
\<close>

theorem scenario_with_date:
  "\<exists>t. parseTransactions rt clock datedText md = [t] \<and> amount t = Finite 50000 \<and>
       txType t = ''DEBIT'' \<and> merchant t = ''SUPERMERCADO XYZ'' \<and> category t = ''SUPERMERCADOS''"
  by (simp add: parseTransactions_datedText buildTransaction_dated)

subsection \<open>Sign of the amount\<close>

text \<open>
  C6, as stated: every transaction carries an amount whose sign agrees with its type,
  negative for \<open>DEBIT\<close> and positive for \<open>CREDIT\<close>. The dated scenario gives one
  transaction of type \<open>DEBIT\<close> whose amount is 50000, which is positive.
\<close>

theorem debit_with_positive_amount_counterexample:
  "\<forall>rt clock md. \<exists>t r. parseTransactions rt clock datedText md = [t] \<and> txType t = ''DEBIT'' \<and>
       amount t = Finite r \<and> 0 < r"
  by (simp add: parseTransactions_datedText buildTransaction_dated)

text \<open>The sign rule of the table parser, which the worker does not call, makes the same
  amount negative.\<close>

lemma determineSign_debit: "determineSign (Finite 50000) ''SUPERMERCADO XYZ'' = Finite (- 50000)"
  by (simp add: determineSign_def creditKeywords_def toLowerCase_merchant)

text \<open>The parser reads the amount from digits, periods and commas and never changes its
  sign, so the amount is \<open>NaN\<close> or at least 0.\<close>

lemma scale10_nonneg: "0 \<le> r \<Longrightarrow> 0 \<le> scale10 r e"
  by (simp add: scale10_def)

lemma unsignedLiteral_nonneg: "unsignedLiteral s = Some (Some r) \<Longrightarrow> 0 \<le> r"
  by (auto simp: unsignedLiteral_def Let_def scale10_nonneg split: if_splits list.splits)

lemma unsignedLiteral_not_Infinity: "CHR ''I'' \<notin> set s \<Longrightarrow> unsignedLiteral s \<noteq> Some None"
  by (cases s) (auto simp: unsignedLiteral_def Let_def split: if_splits list.splits)

lemma parseFloat_unsigned_text:
  assumes "CHR ''-'' \<notin> set s" and "CHR ''+'' \<notin> set s" and "CHR ''I'' \<notin> set s"
  shows "parseFloat s = NaN \<or> (\<exists>r. parseFloat s = Finite r \<and> 0 \<le> r)"
proof (cases "dropWhile isWhiteSpace s")
  case Nil
  show ?thesis
    unfolding parseFloat_def Let_def Nil by simp
next
  case (Cons c cs)
  have sub: "set (c # cs) \<subseteq> set s"
    using set_dropWhileD [of _ isWhiteSpace s] Cons by auto
  with assms have c: "c \<noteq> CHR ''-''" "c \<noteq> CHR ''+''" and i: "CHR ''I'' \<notin> set (c # cs)"
    by auto
  show ?thesis
  proof (cases "unsignedLiteral (c # cs)")
    case None
    with c show ?thesis
      unfolding parseFloat_def Let_def Cons by simp
  next
    case (Some v)
    with unsignedLiteral_not_Infinity [OF i] obtain r where r: "v = Some r"
      by (cases v) auto
    with Some have "0 \<le> r" by (simp add: unsignedLiteral_nonneg)
    with c Some r show ?thesis
      unfolding parseFloat_def Let_def Cons by simp
  qed
qed

lemma set_replaceFirst: "set (replaceFirst s pat repl) \<subseteq> set s \<union> set repl"
proof (induction s)
  case Nil
  then show ?case by auto
next
  case (Cons c cs)
  have "set (drop (length pat) (c # cs)) \<subseteq> set (c # cs)"
    by (rule set_drop_subset)
  with Cons show ?case by auto
qed

lemma isAmountChar_cases: "isAmountChar c \<Longrightarrow> c \<noteq> CHR ''-'' \<and> c \<noteq> CHR ''+'' \<and> c \<noteq> CHR ''I''"
  by (auto simp: isAmountChar_def isDigit_def)

lemma parseAmount_of_amount_text:
  assumes "list_all isAmountChar s"
  shows "parseAmount s = NaN \<or> (\<exists>r. parseAmount s = Finite r \<and> 0 \<le> r)"
proof -
  let ?n = "replaceFirst (filter (\<lambda>c. c \<noteq> CHR ''.'') s) '','' ''.''"
  have "set ?n \<subseteq> set s \<union> {CHR ''.''}"
    using set_replaceFirst [of "filter (\<lambda>c. c \<noteq> CHR ''.'') s" "'',''" "''.''"] by auto
  with assms have "CHR ''-'' \<notin> set ?n" "CHR ''+'' \<notin> set ?n" "CHR ''I'' \<notin> set ?n"
    by (auto simp: list_all_iff dest: isAmountChar_cases)
  then show ?thesis
    unfolding parseAmount_def by (rule parseFloat_unsigned_text)
qed

lemma matchAmounts_tokens: "list_all (list_all isAmountChar) (matchAmounts s)"
proof (induction s rule: matchAmounts.induct)
  case 1
  then show ?case by simp
next
  case (2 c cs)
  let ?rest = "dropWhile isWhiteSpace cs"
  let ?tok = "takeWhile isAmountChar ?rest"
  show ?case
  proof (cases "c = CHR ''$''")
    case False
    with "2.IH"(3) show ?thesis by simp
  next
    case dollar: True
    show ?thesis
    proof (cases "?tok = []")
      case True
      with dollar have "list_all (list_all isAmountChar) (matchAmounts cs)"
        by (intro "2.IH"(1) [of ?rest ?tok]) simp_all
      with dollar True show ?thesis by (simp add: Let_def)
    next
      case False
      with dollar have "list_all (list_all isAmountChar) (matchAmounts (dropWhile isAmountChar ?rest))"
        by (intro "2.IH"(2) [of ?rest ?tok]) simp_all
      moreover have "list_all isAmountChar ?tok"
        by (auto simp: list_all_iff dest: set_takeWhileD)
      ultimately show ?thesis
        using dollar False by (simp add: Let_def)
    qed
  qed
qed

lemma set_trim: "set (trim s) \<subseteq> set s"
proof -
  have "set (dropWhile P xs) \<subseteq> set xs" for P and xs :: string
    by (auto dest: set_dropWhileD)
  then have "set (dropWhile isWhiteSpace (rev (dropWhile isWhiteSpace s))) \<subseteq> set (rev (dropWhile isWhiteSpace s))"
    and "set (dropWhile isWhiteSpace s) \<subseteq> set s"
    by blast+
  then show ?thesis
    by (auto simp: trim_def)
qed

lemma buildTransaction_amount:
  assumes "list_all (list_all isAmountChar) amts"
  shows "amount (buildTransaction rt stamp md line amts) = NaN \<or>
    (\<exists>r. amount (buildTransaction rt stamp md line amts) = Finite r \<and> 0 \<le> r)"
proof -
  let ?a = "case amts of [] \<Rightarrow> ''0'' | a # _ \<Rightarrow> if trim a = [] then ''0'' else trim a"
  have zero: "list_all isAmountChar ''0''"
    by (simp add: isAmountChar_def isDigit_def)
  have "list_all isAmountChar (trim a)" if "list_all isAmountChar a" for a
    using that set_trim [of a] by (auto simp: list_all_iff)
  with assms zero have "list_all isAmountChar ?a"
    by (cases amts) simp_all
  then have "parseAmount ?a = NaN \<or> (\<exists>r. parseAmount ?a = Finite r \<and> 0 \<le> r)"
    by (rule parseAmount_of_amount_text)
  then show ?thesis
    by (simp add: buildTransaction_def Let_def)
qed

lemma buildTransaction_type:
  "txType (buildTransaction rt stamp md line amts) =
     (if isCredit (merchantText (rawLine (buildTransaction rt stamp md line amts))) then ''CREDIT'' else ''DEBIT'')"
  by (simp add: buildTransaction_def Let_def)

lemma matchAmounts_tokens_nonempty: "list_all (\<lambda>tok. tok \<noteq> []) (matchAmounts s)"
proof (induction s rule: matchAmounts.induct)
  case 1
  then show ?case by simp
next
  case (2 c cs)
  let ?rest = "dropWhile isWhiteSpace cs"
  let ?tok = "takeWhile isAmountChar ?rest"
  show ?case
  proof (cases "c = CHR ''$''")
    case False
    with "2.IH"(3) show ?thesis by simp
  next
    case dollar: True
    show ?thesis
    proof (cases "?tok = []")
      case True
      with dollar have "list_all (\<lambda>tok. tok \<noteq> []) (matchAmounts cs)"
        by (intro "2.IH"(1) [of ?rest ?tok]) simp_all
      with dollar True show ?thesis by (simp add: Let_def)
    next
      case False
      with dollar have "list_all (\<lambda>tok. tok \<noteq> []) (matchAmounts (dropWhile isAmountChar ?rest))"
        by (intro "2.IH"(2) [of ?rest ?tok]) simp_all
      then show ?thesis
        using dollar False by (simp add: Let_def)
    qed
  qed
qed

text \<open>A run of digits, periods and commas has no white space for \<open>trim\<close> to remove.\<close>

lemma trim_amount_token:
  assumes "list_all isAmountChar tok"
  shows "trim tok = tok"
proof -
  have nw: "\<not> isWhiteSpace c" if "isAmountChar c" for c
    using that by (auto simp: isAmountChar_def isDigit_def isWhiteSpace_def)
  have keep: "dropWhile isWhiteSpace xs = xs" if "list_all isAmountChar xs" for xs
    using that nw by (cases xs) simp_all
  have "list_all isAmountChar (rev tok)"
    using assms by (simp add: list_all_iff)
  then show ?thesis
    using assms by (simp add: trim_def keep)
qed

lemma buildTransaction_first_token:
  assumes "amts = tok # rest" and "tok \<noteq> []" and "list_all isAmountChar tok"
  shows "amountStr (buildTransaction rt stamp md line amts) = tok \<and>
    amount (buildTransaction rt stamp md line amts) = parseAmount tok \<and>
    rawLine (buildTransaction rt stamp md line amts) = line"
  using assms by (simp add: buildTransaction_def Let_def trim_amount_token)

lemma parseLines_all:
  assumes "\<And>stamp line. matchAmounts line \<noteq> [] \<Longrightarrow> P (buildTransaction rt stamp md line (matchAmounts line))"
  shows "list_all P (parseLines rt clock md i b ls)"
proof (induction ls arbitrary: i b)
  case Nil
  then show ?case by simp
next
  case (Cons l ls)
  show ?case
    by (auto simp: Let_def Cons.IH assms)
qed

text \<open>
  C6, amended: every transaction returned by \<open>parseTransactions\<close> has type \<open>CREDIT\<close> when
  its merchant text, in lower case, contains \<open>pago\<close>, \<open>abono\<close> or \<open>reversion\<close>, and type
  \<open>DEBIT\<close> otherwise; its line has a dollar sign followed by digits, periods and commas,
  its \<open>amountStr\<close> is the first such token of the line, and its amount is \<open>parseAmount\<close>
  of that token, which carries no sign: \<open>NaN\<close> or at least 0 whatever the type. The type
  alone says which way the money went.
\<close>

theorem type_by_keyword_and_amount_of_first_token:
  "list_all
     (\<lambda>t. txType t = (if isCredit (merchantText (rawLine t)) then ''CREDIT'' else ''DEBIT'') \<and>
          matchAmounts (rawLine t) \<noteq> [] \<and>
          amountStr t = hd (matchAmounts (rawLine t)) \<and>
          amount t = parseAmount (amountStr t) \<and>
          (amount t = NaN \<or> (\<exists>r. amount t = Finite r \<and> 0 \<le> r)))
     (parseTransactions rt clock extracted md)"
proof -
  let ?P = "\<lambda>t. txType t = (if isCredit (merchantText (rawLine t)) then ''CREDIT'' else ''DEBIT'') \<and>
          matchAmounts (rawLine t) \<noteq> [] \<and>
          amountStr t = hd (matchAmounts (rawLine t)) \<and>
          amount t = parseAmount (amountStr t) \<and>
          (amount t = NaN \<or> (\<exists>r. amount t = Finite r \<and> 0 \<le> r))"
  have "?P (buildTransaction rt stamp md line (matchAmounts line))"
    if some: "matchAmounts line \<noteq> []" for stamp line
  proof -
    let ?t = "buildTransaction rt stamp md line (matchAmounts line)"
    from some obtain tok rest where m: "matchAmounts line = tok # rest"
      by (cases "matchAmounts line") auto
    have "tok \<noteq> []"
      using matchAmounts_tokens_nonempty [of line] m by simp
    moreover have "list_all isAmountChar tok"
      using matchAmounts_tokens [of line] m by simp
    ultimately have first: "amountStr ?t = tok \<and> amount ?t = parseAmount tok \<and> rawLine ?t = line"
      using m by (intro buildTransaction_first_token)
    have "txType ?t = (if isCredit (merchantText (rawLine ?t)) then ''CREDIT'' else ''DEBIT'')"
      by (rule buildTransaction_type)
    moreover have "amount ?t = NaN \<or> (\<exists>r. amount ?t = Finite r \<and> 0 \<le> r)"
      by (rule buildTransaction_amount [OF matchAmounts_tokens])
    moreover have "matchAmounts (rawLine ?t) \<noteq> []" "amountStr ?t = hd (matchAmounts (rawLine ?t))"
      "amount ?t = parseAmount (amountStr ?t)"
      using first m by simp_all
    ultimately show ?thesis
      by blast
  qed
  then show ?thesis
    unfolding parseTransactions_def by (intro parseLines_all)
qed

theorem type_by_keyword_and_amount_of_first_token_witness:
  "\<forall>rt clock md.
     length (parseTransactions rt clock datedText md) = 1 \<and>
     list_all
       (\<lambda>t. txType t = ''DEBIT'' \<and> matchAmounts (rawLine t) = [''50.000,00''] \<and>
            amountStr t = ''50.000,00'' \<and> amount t = Finite 50000)
       (parseTransactions rt clock datedText md)"
  using type_by_keyword_and_amount_of_first_token [where extracted = datedText]
  by (simp add: parseTransactions_datedText buildTransaction_dated matchAmounts_dated parseAmount_50000)

subsection \<open>Persistence\<close>

lemma saveLoop_counts:
  "saved (fst (saveLoop faults i tbl c ts)) + duplicates (fst (saveLoop faults i tbl c ts)) +
     errors (fst (saveLoop faults i tbl c ts)) = saved c + duplicates c + errors c + length ts"
proof (induction ts arbitrary: i tbl c)
  case Nil
  then show ?case by simp
next
  case (Cons t ts)
  show ?case
    by (simp add: Cons.IH split: option.split dynamoFault.split)
qed

lemma saveLoop_dom_mono: "k \<in> dom tbl \<Longrightarrow> k \<in> dom (snd (saveLoop faults i tbl c ts))"
proof (induction ts arbitrary: i tbl c)
  case Nil
  then show ?case by simp
next
  case (Cons t ts)
  from Cons.prems show ?case
    by (auto split: option.split dynamoFault.split intro!: Cons.IH)
qed

lemma clientAccepts_key:
  "clientAccepts t \<Longrightarrow> \<exists>uid. auth0UserId t = Some uid \<and> keyAccepted uid (transactionId t) \<and> itemAccepted t"
  by (auto simp: clientAccepts_def split: option.splits)

text \<open>An item that the client and the table accept and whose read and write meet no
  fault is in the table after the batch, whatever happened to the items before it.\<close>

lemma saveLoop_attempts_each:
  "n < length ts \<Longrightarrow> faults (i + n) = NoFault \<Longrightarrow> clientAccepts (ts ! n) \<Longrightarrow>
   auth0UserId (ts ! n) = Some uid \<Longrightarrow>
   (uid, transactionId (ts ! n)) \<in> dom (snd (saveLoop faults i tbl c ts))"
proof (induction ts arbitrary: i tbl c n)
  case Nil
  then show ?case by simp
next
  case (Cons t ts)
  show ?case
  proof (cases n)
    case 0
    with Cons.prems have "auth0UserId t = Some uid" "keyAccepted uid (transactionId t)" "itemAccepted t"
      "faults i = NoFault"
      using clientAccepts_key [of t] by auto
    with 0 show ?thesis
      by (auto split: option.split intro!: saveLoop_dom_mono)
  next
    case (Suc m)
    with Cons.prems have "m < length ts" "faults (Suc i + m) = NoFault" "clientAccepts (ts ! m)"
      "auth0UserId (ts ! m) = Some uid"
      by simp_all
    then have "\<And>tbl' c'. (uid, transactionId (ts ! m)) \<in> dom (snd (saveLoop faults (Suc i) tbl' c' ts))"
      by (rule Cons.IH)
    with Suc show ?thesis
      by (simp split: option.split dynamoFault.split)
  qed
qed

text \<open>
  C10: for every batch, every table and every behaviour of the store,
  \<open>saved + duplicates + errors\<close> is the length of the batch; and a fault on one item
  does not keep a later item from being tried: an item that the client and the table
  accept and that meets no fault is in the table afterwards.
\<close>

theorem saveTransactions_counts_every_item:
  "saved (fst (saveTransactions faults tbl ts)) + duplicates (fst (saveTransactions faults tbl ts)) +
     errors (fst (saveTransactions faults tbl ts)) = length ts \<and>
   (\<forall>n uid. n < length ts \<and> faults n = NoFault \<and> clientAccepts (ts ! n) \<and>
        auth0UserId (ts ! n) = Some uid \<longrightarrow>
      (uid, transactionId (ts ! n)) \<in> dom (snd (saveTransactions faults tbl ts)))"
proof
  show "saved (fst (saveTransactions faults tbl ts)) + duplicates (fst (saveTransactions faults tbl ts)) +
     errors (fst (saveTransactions faults tbl ts)) = length ts"
    by (simp add: saveTransactions_def saveLoop_counts)
  show "\<forall>n uid. n < length ts \<and> faults n = NoFault \<and> clientAccepts (ts ! n) \<and>
        auth0UserId (ts ! n) = Some uid \<longrightarrow>
      (uid, transactionId (ts ! n)) \<in> dom (snd (saveTransactions faults tbl ts))"
    unfolding saveTransactions_def using saveLoop_attempts_each [of _ ts faults 0] by simp
qed









lemma exampleBatch_accepted: "list_all clientAccepts exampleBatch"
  by (simp add: exampleBatch_def exampleTx_def clientAccepts_def keyAccepted_def itemAccepted_def
      numberAccepted_def)


theorem saveTransactions_counts_every_item_witness:
  "(1::nat) < length exampleBatch \<and>
   (if (1::nat) = 0 then GetThrows else NoFault) = NoFault \<and>
   clientAccepts (exampleBatch ! 1) \<and>
   auth0UserId (exampleBatch ! 1) = Some ''auth0|123'' \<and>
   (''auth0|123'', transactionId (exampleBatch ! 1)) \<in>
     dom (snd (saveTransactions (\<lambda>n. if n = 0 then GetThrows else NoFault) Map.empty exampleBatch)) \<and>
   saved (fst (saveTransactions (\<lambda>n. if n = 0 then GetThrows else NoFault) Map.empty exampleBatch)) +
     duplicates (fst (saveTransactions (\<lambda>n. if n = 0 then GetThrows else NoFault) Map.empty exampleBatch)) +
     errors (fst (saveTransactions (\<lambda>n. if n = 0 then GetThrows else NoFault) Map.empty exampleBatch)) = 2"
proof -
  have h: "(1::nat) < length exampleBatch \<and> (if (1::nat) = 0 then GetThrows else NoFault) = NoFault \<and>
      clientAccepts (exampleBatch ! 1) \<and> auth0UserId (exampleBatch ! 1) = Some ''auth0|123''"
    using exampleBatch_accepted by (simp add: exampleBatch_def exampleTx_def)
  have n: "length exampleBatch = 2"
    by (simp add: exampleBatch_def)
  have r: "saved (fst (saveTransactions (\<lambda>n. if n = 0 then GetThrows else NoFault) Map.empty exampleBatch)) +
     duplicates (fst (saveTransactions (\<lambda>n. if n = 0 then GetThrows else NoFault) Map.empty exampleBatch)) +
     errors (fst (saveTransactions (\<lambda>n. if n = 0 then GetThrows else NoFault) Map.empty exampleBatch)) = 2 \<and>
   (\<forall>n uid. n < 2 \<and> (if n = 0 then GetThrows else NoFault) = NoFault \<and> clientAccepts (exampleBatch ! n) \<and>
        auth0UserId (exampleBatch ! n) = Some uid \<longrightarrow>
      (uid, transactionId (exampleBatch ! n)) \<in>
        dom (snd (saveTransactions (\<lambda>n. if n = 0 then GetThrows else NoFault) Map.empty exampleBatch)))"
    using saveTransactions_counts_every_item
      [of "\<lambda>n. if n = 0 then GetThrows else NoFault" Map.empty exampleBatch]
    unfolding n .
  show ?thesis
    using h r unfolding n by blast
qed

subsection \<open>Identity of a transaction\<close>

lemma parseLines_map_cong:
  assumes "\<And>s1 s2 line amts. g (buildTransaction rt s1 md line amts) = h (buildTransaction rt s2 md line amts)"
  shows "map g (parseLines rt clock1 md i b ls) = map h (parseLines rt clock2 md i b ls)"
proof (induction ls arbitrary: i b)
  case Nil
  then show ?case by simp
next
  case (Cons l ls)
  show ?case
    by (auto simp: Let_def Cons.IH assms)
qed

lemma parseLines_ids_without_clock:
  "map transactionId (parseLines rt clock1 md i b ls) = map transactionId (parseLines rt clock2 md i b ls)"
  by (rule parseLines_map_cong) (simp add: buildTransaction_def Let_def)

lemma parseLines_ids_by_content:
  "map transactionId (parseLines rt clock md i b ls) =
     map (\<lambda>t. generateTransactionHash rt (auth0UserId t) (date t) (amount t) (merchantText (rawLine t))
            (authNumber t) (sourceDocumentId t)) (parseLines rt clock md i b ls)"
  by (rule parseLines_map_cong) (simp add: buildTransaction_def Let_def)

text \<open>
  C3: two runs of \<open>parseTransactions\<close> on the same text and context, whatever the clock
  shows in each, return lists with the same \<open>transactionId\<close> at every position; and
  every \<open>transactionId\<close> is the hash of the owner, the date, the amount, the merchant
  text read from the line (before the default name is put in for an empty one), the
  authorization number and the source document, and of nothing else.
\<close>

theorem parseTransactions_ids_deterministic:
  "map transactionId (parseTransactions rt clock1 txt md) = map transactionId (parseTransactions rt clock2 txt md) \<and>
   map transactionId (parseTransactions rt clock1 txt md) =
     map (\<lambda>t. generateTransactionHash rt (auth0UserId t) (date t) (amount t) (merchantText (rawLine t))
            (authNumber t) (sourceDocumentId t)) (parseTransactions rt clock1 txt md)"
  unfolding parseTransactions_def
  using parseLines_ids_without_clock parseLines_ids_by_content by blast

subsection \<open>Temporary files\<close>

text \<open>Every exit but one leaves no temporary file: with no file before the call, none
  is there after it, unless qpdf failed after it had written its output.\<close>

lemma extractStep_cleans:
  "fs (OutputTxt (nowOutput env)) = None \<Longrightarrow>
   snd (extractStep env fs p) = fs(p := None)"
  by (auto simp: extractStep_def extractCatch_def unlinkIfExists_def unlinkSync_def Let_def fun_upd_twist
      split: execResult.splits option.splits)

lemma extract_cleans_other_exits:
  assumes "\<not> (truthy password \<and> qpdfResult env \<noteq> Exited0 \<and> qpdfOutput env \<noteq> None)"
  shows "snd (extractTextFromPDF env Map.empty password) = Map.empty"
proof (cases "s3Object env")
  case (Inl e)
  then show ?thesis by (simp add: extractTextFromPDF_def)
next
  case (Inr pdfBuffer)
  show ?thesis
  proof (cases "truthy password")
    case False
    with Inr show ?thesis
      by (simp add: extractTextFromPDF_def Let_def extractStep_cleans)
  next
    case True
    show ?thesis
    proof (cases "qpdfResult env")
      case Exited0
      with Inr True show ?thesis
        by (auto simp: extractTextFromPDF_def Let_def extractStep_cleans unlinkSync_def
            split: option.splits)
    next
      case (ExecError msg)
      with assms True have "qpdfOutput env = None" by simp
      with Inr True ExecError show ?thesis
        by (simp add: extractTextFromPDF_def Let_def unlockCatch_def unlinkIfExists_def)
    qed
  qed
qed

text \<open>
  C9: on every exit of \<open>extractTextFromPDF\<close> every temporary file of the call has been
  deleted. When qpdf fails after writing its output (it exits with status 3 when it
  decrypted with warnings), the \<open>catch\<close> of the qpdf step deletes the password file and
  the input file and throws; the unlocked file stays.
\<close>

theorem unlocked_file_outlives_failed_unlock:
  "fst (extractTextFromPDF qpdfWarningEnv Map.empty (Some ''secret'')) =
     Inl ''PDF_UNLOCK_FAILED: No se pudo desbloquear el PDF'' \<and>
   snd (extractTextFromPDF qpdfWarningEnv Map.empty (Some ''secret'')) (UnlockedPdf 1730000000001) =
     Some ''%PDF-1.7 decrypted'' \<and>
   dom (snd (extractTextFromPDF qpdfWarningEnv Map.empty (Some ''secret''))) = {UnlockedPdf 1730000000001}"
  by (auto simp: extractTextFromPDF_def qpdfWarningEnv_def truthy_def unlockCatch_def unlinkIfExists_def
      split: if_splits)

subsection \<open>Classification of a failed decryption\<close>

text \<open>Whatever qpdf printed, the error of a failed decryption carries one fixed message,
  which has neither of the two words the worker looks for.\<close>

lemma unlock_failure_message:
  "truthy password \<Longrightarrow> s3Object env = Inr pdfBuffer \<Longrightarrow> qpdfResult env = ExecError diagnostic \<Longrightarrow>
   fst (extractTextFromPDF env fs password) = Inl ''PDF_UNLOCK_FAILED: No se pudo desbloquear el PDF''"
  by (simp add: extractTextFromPDF_def Let_def unlockCatch_def)

lemma unlock_failure_message_words:
  "\<not> js_includes ''PDF_UNLOCK_FAILED: No se pudo desbloquear el PDF'' ''password''"
  "\<not> js_includes ''PDF_UNLOCK_FAILED: No se pudo desbloquear el PDF'' (''contrase'' @ [CHR 0xF1] @ ''a'')"
  by simp_all

lemma updateDocumentStatus_returns: "fst (updateDocumentStatus now fault tbl userId documentId status additionalData) = Inr ()"
  by (auto simp: updateDocumentStatus_def split: option.splits sum.splits)

lemma markDocumentFailed_written:
  "uid \<noteq> [] \<Longrightarrow> did \<noteq> [] \<Longrightarrow>
   \<exists>it. snd (markDocumentFailed now None tbl (Some uid) (Some did) errorType errorMessage) (uid, did) = Some it \<and>
     it ''status'' = Some (AttrS ''FAILED'') \<and> it ''errorType'' = Some (AttrS errorType)"
  by (simp add: markDocumentFailed_def updateDocumentStatus_def updateBody_def applySet_def)

text \<open>For every diagnostic of a failed decryption the worker throws the fixed message and
  records \<open>FAILED\<close> with \<open>EXTRACTION_FAILED\<close>, when the tracker's update goes through.\<close>

lemma extractStage_unlock_failure:
  assumes "truthy password" and "s3Object (extraction env) = Inr pdfBuffer"
    and "qpdfResult (extraction env) = ExecError diagnostic"
    and "trackerFault env ''FAILED'' = None" and "uid \<noteq> []" and "did \<noteq> []"
  shows "fst (extractStage env w (Some uid) (Some did) email docType password) =
      Inl ''PDF_UNLOCK_FAILED: No se pudo desbloquear el PDF'' \<and>
    (\<exists>it. uploads (snd (extractStage env w (Some uid) (Some did) email docType password)) (uid, did) = Some it \<and>
      it ''status'' = Some (AttrS ''FAILED'') \<and> it ''errorType'' = Some (AttrS ''EXTRACTION_FAILED''))"
proof -
  obtain fs' where ext: "extractTextFromPDF (extraction env) (files w) password =
      (Inl ''PDF_UNLOCK_FAILED: No se pudo desbloquear el PDF'', fs')"
    using unlock_failure_message [OF assms(1,2,3), of "files w"]
    by (cases "extractTextFromPDF (extraction env) (files w) password") simp
  let ?m = "markDocumentFailed (timeAt env ''FAILED'') None (uploads w) (Some uid) (Some did)
      ''EXTRACTION_FAILED'' ''PDF_UNLOCK_FAILED: No se pudo desbloquear el PDF''"
  have ret: "fst ?m = Inr ()"
    by (simp add: markDocumentFailed_def updateDocumentStatus_returns)
  have stage: "extractStage env w (Some uid) (Some did) email docType password =
      (Inl ''PDF_UNLOCK_FAILED: No se pudo desbloquear el PDF'', w\<lparr>files := fs', uploads := snd ?m\<rparr>)"
    unfolding extractStage_def ext
    by (simp add: unlock_failure_message_words tracked_def assms(4) ret)
  from markDocumentFailed_written [OF assms(5,6)] show ?thesis
    unfolding stage by simp
qed

text \<open>
  C2: a decryption that fails with a diagnostic that has a password-related substring
  is classified as a password error. In the run below qpdf fails with the diagnostic
  \<open>invalid password\<close>; \<open>extractTextFromPDF\<close> replaces it by its fixed message, and the
  worker records status \<open>FAILED\<close> with error type \<open>EXTRACTION_FAILED\<close>.
\<close>

theorem wrong_password_recorded_as_extraction_failed:
  "(\<exists>diagnostic. qpdfResult (extraction wrongPasswordEnv) = ExecError diagnostic \<and>
      js_includes diagnostic ''password'') \<and>
   fst (processRecord wrongPasswordEnv emptyWorld (Some pdfEvent)) =
     Inl ''PDF_UNLOCK_FAILED: No se pudo desbloquear el PDF'' \<and>
   (\<exists>it. uploads (snd (processRecord wrongPasswordEnv emptyWorld (Some pdfEvent))) (''auth0|123'', ''doc-1'') = Some it \<and>
      it ''status'' = Some (AttrS ''FAILED'') \<and> it ''errorType'' = Some (AttrS ''EXTRACTION_FAILED''))"
proof -
  have env:
    "headObject wrongPasswordEnv = Inr [''auth0-user-id'' \<mapsto> ''auth0|123'', ''document-id'' \<mapsto> ''doc-1'',
        ''has-password'' \<mapsto> ''true'']"
    "passwordsTable wrongPasswordEnv = [(''auth0|123'', ''default'') \<mapsto> ''not-the-password'']"
    "passwordFault wrongPasswordEnv = None"
    "s3Object (extraction wrongPasswordEnv) = Inr ''%PDF-1.7''"
    "qpdfResult (extraction wrongPasswordEnv) = ExecError ''Command failed: qpdf: invalid password''"
    "trackerFault wrongPasswordEnv = (\<lambda>status. None)"
    by (simp_all add: wrongPasswordEnv_def)
  have diag: "\<exists>diagnostic. qpdfResult (extraction wrongPasswordEnv) = ExecError diagnostic \<and>
      js_includes diagnostic ''password''"
    by (simp add: env)
  have reach: "\<exists>w. processRecord wrongPasswordEnv emptyWorld (Some pdfEvent) =
      extractStage wrongPasswordEnv w (Some ''auth0|123'') (Some ''doc-1'') None ''default''
        (Some ''not-the-password'')"
    unfolding processRecord_def
    apply (simp add: env pdfEvent_def truthy_def joinElem_def Let_def tracked_def
        updateDocumentStatus_returns)
    apply (rule exI)
    apply (rule refl)
    done
  then obtain w where run: "processRecord wrongPasswordEnv emptyWorld (Some pdfEvent) =
      extractStage wrongPasswordEnv w (Some ''auth0|123'') (Some ''doc-1'') None ''default''
        (Some ''not-the-password'')"
    by blast
  have "fst (extractStage wrongPasswordEnv w (Some ''auth0|123'') (Some ''doc-1'') None ''default''
        (Some ''not-the-password'')) = Inl ''PDF_UNLOCK_FAILED: No se pudo desbloquear el PDF'' \<and>
    (\<exists>it. uploads (snd (extractStage wrongPasswordEnv w (Some ''auth0|123'') (Some ''doc-1'') None
        ''default'' (Some ''not-the-password''))) (''auth0|123'', ''doc-1'') = Some it \<and>
      it ''status'' = Some (AttrS ''FAILED'') \<and> it ''errorType'' = Some (AttrS ''EXTRACTION_FAILED''))"
    by (rule extractStage_unlock_failure [where pdfBuffer = "''%PDF-1.7''"
          and diagnostic = "''Command failed: qpdf: invalid password''"])
      (simp_all add: env truthy_def)
  with diag show ?thesis
    unfolding run by blast
qed

subsection \<open>The tracker never stops the worker\<close>

lemma tracked_update:
  "tracked w (updateDocumentStatus now fault (uploads w) userId documentId status additionalData) =
     (Inr (), w\<lparr>uploads := snd (updateDocumentStatus now fault (uploads w) userId documentId status additionalData)\<rparr>)"
  by (simp add: tracked_def updateDocumentStatus_returns)

lemma tracked_failed:
  "tracked w (markDocumentFailed now fault (uploads w) userId documentId errorType errorMessage) =
     (Inr (), w\<lparr>uploads := snd (markDocumentFailed now fault (uploads w) userId documentId errorType errorMessage)\<rparr>)"
  by (simp add: tracked_def markDocumentFailed_def updateDocumentStatus_returns)

lemma tracked_password:
  "tracked w (markPasswordError now fault (uploads w) userId documentId errorMessage) =
     (Inr (), w\<lparr>uploads := snd (markPasswordError now fault (uploads w) userId documentId errorMessage)\<rparr>)"
  by (simp add: tracked_def markPasswordError_def updateDocumentStatus_returns)

lemma tracked_completed:
  "tracked w (markDocumentCompleted now fault (uploads w) userId documentId n ms) =
     (Inr (), w\<lparr>uploads := snd (markDocumentCompleted now fault (uploads w) userId documentId n ms)\<rparr>)"
  by (simp add: tracked_def markDocumentCompleted_def updateDocumentStatus_returns)

text \<open>
  The stages in closed form: what each throws or returns, the transactions it stores
  and the files it leaves, none of which mentions the uploads table or the faults of
  the tracker.
\<close>

lemma saveStage_result:
  "fst (saveStage env w userId documentId ts) = Inr ()"
  "txs (snd (saveStage env w userId documentId ts)) = snd (saveTransactions (saveFaults env) (txs w) ts)"
  "files (snd (saveStage env w userId documentId ts)) = files w"
  by (simp_all add: saveStage_def Let_def tracked_completed)

lemma parseStage_result:
  "fst (parseStage env w userId documentId email docType extracted) =
     (if length (parseTransactions (envRuntime env) (parseClock env) extracted
          \<lparr>md_sourceDocumentId = documentId, md_auth0UserId = userId, md_userEmail = email,
           md_documentType = Some docType\<rparr>) = 0
      then Inl ''No se encontraron transacciones'' else Inr ())"
  "txs (snd (parseStage env w userId documentId email docType extracted)) =
     (if length (parseTransactions (envRuntime env) (parseClock env) extracted
          \<lparr>md_sourceDocumentId = documentId, md_auth0UserId = userId, md_userEmail = email,
           md_documentType = Some docType\<rparr>) = 0
      then txs w
      else snd (saveTransactions (saveFaults env) (txs w)
             (parseTransactions (envRuntime env) (parseClock env) extracted
                \<lparr>md_sourceDocumentId = documentId, md_auth0UserId = userId, md_userEmail = email,
                 md_documentType = Some docType\<rparr>)))"
  "files (snd (parseStage env w userId documentId email docType extracted)) = files w"
  unfolding parseStage_def tracked_update tracked_failed
  by (simp_all add: Let_def saveStage_result)

lemma extractStage_result:
  "fst (extractStage env w userId documentId email docType password) =
     (case fst (extractTextFromPDF (extraction env) (files w) password) of
        Inl msg \<Rightarrow> Inl msg
      | Inr extracted \<Rightarrow>
          if length (parseTransactions (envRuntime env) (parseClock env) extracted
               \<lparr>md_sourceDocumentId = documentId, md_auth0UserId = userId, md_userEmail = email,
                md_documentType = Some docType\<rparr>) = 0
          then Inl ''No se encontraron transacciones'' else Inr ())"
  "txs (snd (extractStage env w userId documentId email docType password)) =
     (case fst (extractTextFromPDF (extraction env) (files w) password) of
        Inl msg \<Rightarrow> txs w
      | Inr extracted \<Rightarrow>
          if length (parseTransactions (envRuntime env) (parseClock env) extracted
               \<lparr>md_sourceDocumentId = documentId, md_auth0UserId = userId, md_userEmail = email,
                md_documentType = Some docType\<rparr>) = 0
          then txs w
          else snd (saveTransactions (saveFaults env) (txs w)
                 (parseTransactions (envRuntime env) (parseClock env) extracted
                    \<lparr>md_sourceDocumentId = documentId, md_auth0UserId = userId, md_userEmail = email,
                     md_documentType = Some docType\<rparr>)))"
  "files (snd (extractStage env w userId documentId email docType password)) =
     snd (extractTextFromPDF (extraction env) (files w) password)"
  unfolding extractStage_def tracked_failed tracked_password
  by (simp_all add: Let_def parseStage_result split: prod.split sum.split)

lemma processRecord_without_tracker:
  "fst (processRecord (env\<lparr>trackerFault := f\<rparr>) w ev) = fst (processRecord env w ev) \<and>
   txs (snd (processRecord (env\<lparr>trackerFault := f\<rparr>) w ev)) = txs (snd (processRecord env w ev)) \<and>
   files (snd (processRecord (env\<lparr>trackerFault := f\<rparr>) w ev)) = files (snd (processRecord env w ev))"
proof (cases ev)
  case None
  then show ?thesis by (simp add: processRecord_def)
next
  case (Some e)
  show ?thesis
  proof (cases "headObject env")
    case (Inl err)
    with Some show ?thesis by (simp add: processRecord_def)
  next
    case (Inr md)
    with Some show ?thesis
      unfolding processRecord_def tracked_update
      by (simp add: Let_def extractStage_result cong: sum.case_cong if_cong)
  qed
qed

text \<open>
  C7: for every input, with a missing owner or document identifier and with an update
  that the store refuses, \<open>updateDocumentStatus\<close>, \<open>markDocumentFailed\<close>,
  \<open>markPasswordError\<close> and \<open>markDocumentCompleted\<close> return and do not throw; and what
  \<open>processRecord\<close> throws or returns, stores and leaves on disk is the same whichever of
  the tracker's updates fail.
\<close>

theorem tracker_never_throws:
  "fst (updateDocumentStatus now fault tbl userId documentId status additionalData) = Inr () \<and>
   fst (markDocumentFailed now fault tbl userId documentId errorType errorMessage) = Inr () \<and>
   fst (markPasswordError now fault tbl userId documentId errorMessage) = Inr () \<and>
   fst (markDocumentCompleted now fault tbl userId documentId n ms) = Inr () \<and>
   fst (processRecord (env\<lparr>trackerFault := f\<rparr>) w ev) = fst (processRecord env w ev) \<and>
   txs (snd (processRecord (env\<lparr>trackerFault := f\<rparr>) w ev)) = txs (snd (processRecord env w ev)) \<and>
   files (snd (processRecord (env\<lparr>trackerFault := f\<rparr>) w ev)) = files (snd (processRecord env w ev))"
  using processRecord_without_tracker [where env = env and f = f and w = w and ev = ev]
  by (simp add: markDocumentFailed_def markPasswordError_def markDocumentCompleted_def
      updateDocumentStatus_returns)

theorem tracker_never_throws_witness:
  "fst (updateDocumentStatus ''2025-10-27T22:00:15.000Z'' (Some ''ProvisionedThroughputExceededException'')
          Map.empty None (Some ''doc-1'') ''PROCESSING'' []) = Inr () \<and>
   fst (markDocumentFailed ''2025-10-27T22:00:15.000Z'' (Some ''ProvisionedThroughputExceededException'')
          Map.empty None (Some ''doc-1'') ''EXTRACTION_FAILED'' ''PDF_UNLOCK_FAILED'') = Inr () \<and>
   fst (markPasswordError ''2025-10-27T22:00:15.000Z'' (Some ''ProvisionedThroughputExceededException'')
          Map.empty None (Some ''doc-1'') ''PDF_UNLOCK_FAILED'') = Inr () \<and>
   fst (markDocumentCompleted ''2025-10-27T22:00:15.000Z'' (Some ''ProvisionedThroughputExceededException'')
          Map.empty None (Some ''doc-1'') 45 3500) = Inr () \<and>
   fst (processRecord (wrongPasswordEnv\<lparr>trackerFault := \<lambda>status. Some ''ProvisionedThroughputExceededException''\<rparr>)
          emptyWorld (Some pdfEvent)) = fst (processRecord wrongPasswordEnv emptyWorld (Some pdfEvent)) \<and>
   txs (snd (processRecord (wrongPasswordEnv\<lparr>trackerFault := \<lambda>status. Some ''ProvisionedThroughputExceededException''\<rparr>)
          emptyWorld (Some pdfEvent))) = txs (snd (processRecord wrongPasswordEnv emptyWorld (Some pdfEvent))) \<and>
   files (snd (processRecord (wrongPasswordEnv\<lparr>trackerFault := \<lambda>status. Some ''ProvisionedThroughputExceededException''\<rparr>)
          emptyWorld (Some pdfEvent))) = files (snd (processRecord wrongPasswordEnv emptyWorld (Some pdfEvent)))"
  by (rule tracker_never_throws)

end
